theory Spec2Isabelle
  imports Complex_Main "HOL-Library.Sublist" "HOL-Library.Monad_Syntax" "HOL-Library.Multiset"
begin

section \<open>Student management backend: the data access and query layer of main.py\<close>

text \<open>
  The handlers of \<^verbatim>\<open>main.py\<close> are modelled as functions on the persisted state.
  A table is the list of its rows. No query of the source has an \<^verbatim>\<open>ORDER BY\<close>: the order
  in which \<^verbatim>\<open>get_students\<close> and \<^verbatim>\<open>search_students\<close> receive their rows is the database's
  and is given to them with the request. Where a handler asks for \<^verbatim>\<open>.first()\<close>, the row is
  the first one in the list. Every handler is taken after \<^verbatim>\<open>verify_token\<close> has accepted
  the caller.
  An exception that the handler does not catch ends the request; the session is closed
  by \<^verbatim>\<open>get_db\<close>, which discards whatever was not committed.
\<close>

subsection \<open>Rows and request bodies\<close>

type_synonym datetime = int

text \<open>\<^verbatim>\<open>class StudentBase\<close>: name, email, phone, gender.\<close>

record student_base =
  name :: string
  email :: string
  phone :: string
  gender :: string

text \<open>\<^verbatim>\<open>class Student(Base)\<close>, table \<^verbatim>\<open>students\<close>: the columns of \<open>student_base\<close>,
  the primary key and \<^verbatim>\<open>created_at\<close>.\<close>

record student = student_base +
  s_id :: int
  created_at :: datetime

text \<open>\<^verbatim>\<open>class AcademicDetailsBase\<close>. The value of \<^verbatim>\<open>cgpa\<close> is stored and returned,
  never computed with.\<close>

record academic_details_base =
  college_name :: string
  department :: string
  graduation_year :: int
  cgpa :: real
  backlogs :: int

text \<open>\<^verbatim>\<open>class AcademicDetails(Base)\<close>, table \<^verbatim>\<open>academic_details\<close>.\<close>

record academic_row = academic_details_base +
  a_id :: int
  a_student_id :: int

text \<open>\<^verbatim>\<open>class Documents(Base)\<close>, table \<^verbatim>\<open>documents\<close>.\<close>

record document_row =
  d_id :: int
  d_student_id :: int
  doc_type :: string
  file_path :: string
  uploaded_at :: datetime

text \<open>\<^verbatim>\<open>class StudentCreate(StudentBase)\<close>.\<close>

record student_create = student_base +
  sc_academic_details :: academic_details_base

text \<open>\<^verbatim>\<open>class StudentUpdate\<close>. \<^verbatim>\<open>dict(exclude_unset=True)\<close> keeps the fields the request
  has set, a field set to \<^verbatim>\<open>null\<close> among them: \<open>None\<close> is a field the request does not
  have, \<open>Some None\<close> one it sets to \<^verbatim>\<open>null\<close>, \<open>Some (Some v)\<close> one it sets to \<open>v\<close>.
  The sub-object is only tested for truth, so there absent and \<^verbatim>\<open>null\<close> are the same.\<close>

record student_update =
  su_name :: "string option option"
  su_email :: "string option option"
  su_phone :: "string option option"
  su_gender :: "string option option"
  su_academic_details :: "academic_details_base option"

text \<open>\<^verbatim>\<open>class StudentResponse\<close>: the row with both relationships loaded.\<close>

record student_response =
  r_student :: student
  r_academic_details :: "academic_row list"
  r_documents :: "document_row list"

text \<open>The three tables and the sequences behind their \<^verbatim>\<open>Integer\<close> primary keys.\<close>

record database =
  students :: "student list"
  academic_details :: "academic_row list"
  documents :: "document_row list"
  students_id_seq :: int
  academic_details_id_seq :: int
  documents_id_seq :: int

text \<open>What a request can end with instead of a body: an \<^verbatim>\<open>HTTPException\<close> raised by
  the handler, the 422 answer of the parameter validation (\<^verbatim>\<open>Query(..., ge=, le=)\<close>), or
  an exception of the database driver or of the file system that no handler catches.\<close>

datatype error =
  HTTPException int string
  | RequestValidationError
  | DatabaseError
  | OSError

subsection \<open>What the database decides\<close>

text \<open>The source leaves to the database the case folding that \<^verbatim>\<open>ILIKE\<close> compares under
  (it is the one of the database's locale) and, having no \<^verbatim>\<open>ORDER BY\<close>, three orders: the
  one in which the students table is read, the one in which the rows of the join with
  the academic rows come, and the one in which the outer query that loads the
  relationships returns the students. An order is given by a rank, the lower rank
  first, rows of equal rank as the table lists them. These choices belong to one query;
  the next query may meet others.\<close>

record engine =
  fold_case :: "string \<Rightarrow> string"
  scan_order :: "student \<Rightarrow> int"
  join_order :: "student \<times> academic_row \<Rightarrow> int"
  result_order :: "student \<Rightarrow> int"

subsection \<open>Column types and constraints\<close>

text \<open>\<^verbatim>\<open>String(n)\<close> is \<^verbatim>\<open>VARCHAR(n)\<close>: a longer value is refused, unless all of the excess
  is spaces, which are cut off. \<^verbatim>\<open>Integer\<close> is a 32-bit column.\<close>

definition varchar :: "nat \<Rightarrow> string \<Rightarrow> string option" where
  "varchar n v =
     (if length v \<le> n then Some v
      else if list_all (\<lambda>c. c = CHR '' '') (drop n v) then Some (take n v)
      else None)"

definition integer_col :: "int \<Rightarrow> int option" where
  "integer_col v = (if - 2147483648 \<le> v \<and> v \<le> 2147483647 then Some v else None)"

subsection \<open>Relationships and eager loading\<close>

definition academic_details_of :: "database \<Rightarrow> int \<Rightarrow> academic_row list" where
  "academic_details_of db sid = filter (\<lambda>a. a_student_id a = sid) (academic_details db)"

definition documents_of :: "database \<Rightarrow> int \<Rightarrow> document_row list" where
  "documents_of db sid = filter (\<lambda>d. d_student_id d = sid) (documents db)"

definition populate :: "database \<Rightarrow> student \<Rightarrow> student_response" where
  "populate db s =
     \<lparr>r_student = s,
      r_academic_details = academic_details_of db (s_id s),
      r_documents = documents_of db (s_id s)\<rparr>"

subsection \<open>\<^verbatim>\<open>get_students\<close>\<close>

text \<open>\<^verbatim>\<open>skip: int = Query(0, ge=0)\<close>, \<^verbatim>\<open>limit: int = Query(10, ge=1, le=100)\<close>; a request
  that leaves one out arrives here with the default. The eager loads of the two
  collections are joined outside the limited query, so \<^verbatim>\<open>OFFSET\<close> and \<^verbatim>\<open>LIMIT\<close> count
  student rows as the table is read, and the students of the page are returned in the
  order of the outer query. \<^verbatim>\<open>OFFSET\<close> is a 64-bit value in the database.\<close>

definition get_students ::
  "engine \<Rightarrow> int \<Rightarrow> int \<Rightarrow> database \<Rightarrow> error + student_response list" where
  "get_students e skip limit db =
     (if skip < 0 \<or> limit < 1 \<or> 100 < limit then Inl RequestValidationError
      else if 9223372036854775807 < skip then Inl DatabaseError
      else
        let rows = take (nat limit) (drop (nat skip) (sort_key (scan_order e) (students db)))
        in Inr (map (populate db) (sort_key (result_order e) rows)))"

subsection \<open>Inserts\<close>

text \<open>An \<^verbatim>\<open>INSERT\<close> draws the primary key from the table's sequence and checks the
  column types, the primary key, the \<^verbatim>\<open>unique=True\<close> of \<^verbatim>\<open>students.email\<close> and the
  foreign key. \<open>None\<close> is the exception \<^verbatim>\<open>db.commit()\<close> raises when a check fails; the
  values a failed statement has drawn from a sequence are not modelled.\<close>

definition insert_student ::
  "string \<Rightarrow> string \<Rightarrow> string \<Rightarrow> string \<Rightarrow> datetime \<Rightarrow> database \<Rightarrow> (student \<times> database) option" where
  "insert_student n e p g now db = do {
     n' \<leftarrow> varchar 100 n;
     e' \<leftarrow> varchar 100 e;
     p' \<leftarrow> varchar 15 p;
     g' \<leftarrow> varchar 10 g;
     i \<leftarrow> integer_col (students_id_seq db);
     if i \<in> set (map s_id (students db)) \<or> e' \<in> set (map email (students db)) then None
     else
       let row = \<lparr>name = n', email = e', phone = p', gender = g', s_id = i, created_at = now\<rparr>
       in Some (row, db\<lparr>students := students db @ [row], students_id_seq := i + 1\<rparr>)
   }"

definition insert_academic_details ::
  "int \<Rightarrow> academic_details_base \<Rightarrow> database \<Rightarrow> (academic_row \<times> database) option" where
  "insert_academic_details sid ad db = do {
     c \<leftarrow> varchar 200 (college_name ad);
     d \<leftarrow> varchar 100 (department ad);
     y \<leftarrow> integer_col (graduation_year ad);
     b \<leftarrow> integer_col (backlogs ad);
     i \<leftarrow> integer_col (academic_details_id_seq db);
     if i \<in> set (map a_id (academic_details db)) \<or> sid \<notin> set (map s_id (students db)) then None
     else
       let row = \<lparr>college_name = c, department = d, graduation_year = y, cgpa = cgpa ad,
                  backlogs = b, a_id = i, a_student_id = sid\<rparr>
       in Some (row, db\<lparr>academic_details := academic_details db @ [row],
                         academic_details_id_seq := i + 1\<rparr>)
   }"

definition insert_document ::
  "int \<Rightarrow> string \<Rightarrow> string \<Rightarrow> datetime \<Rightarrow> database \<Rightarrow> database option" where
  "insert_document sid ty path now db = do {
     t \<leftarrow> varchar 50 ty;
     i \<leftarrow> integer_col (documents_id_seq db);
     if i \<in> set (map d_id (documents db)) \<or> sid \<notin> set (map s_id (students db)) then None
     else
       let row = \<lparr>d_id = i, d_student_id = sid, doc_type = t, file_path = path, uploaded_at = now\<rparr>
       in Some (db\<lparr>documents := documents db @ [row], documents_id_seq := i + 1\<rparr>)
   }"

subsection \<open>\<^verbatim>\<open>create_student\<close>\<close>

text \<open>The handler commits twice: the student row first (the refresh after it reads the
  generated id), the academic row second. The state returned is the one persisted when
  the request ends.\<close>

definition create_student ::
  "student_create \<Rightarrow> datetime \<Rightarrow> database \<Rightarrow> (error + student_response) \<times> database" where
  "create_student student now db =
     (case find (\<lambda>s. email s = email student) (students db) of
        Some existing_student \<Rightarrow> (Inl (HTTPException 400 ''Email already registered''), db)
      | None \<Rightarrow>
          (case insert_student (name student) (email student) (phone student) (gender student) now db of
             None \<Rightarrow> (Inl DatabaseError, db)
           | Some (db_student, db1) \<Rightarrow>
               (case insert_academic_details (s_id db_student) (sc_academic_details student) db1 of
                  None \<Rightarrow> (Inl DatabaseError, db1)
                | Some (db_academic, db2) \<Rightarrow> (Inr (populate db2 db_student), db2))))"

subsection \<open>\<^verbatim>\<open>search_students\<close>\<close>

text \<open>\<^verbatim>\<open>ILIKE\<close>: in the pattern \<^verbatim>\<open>%\<close> stands for any run of characters, \<^verbatim>\<open>_\<close> for any one
  character, and a backslash takes the character after it literally. \<^verbatim>\<open>ILIKE\<close> folds
  the case of the value and of the pattern as the locale of the database says, and
  matches the two as \<^verbatim>\<open>LIKE\<close> does.\<close>

fun like_match :: "string \<Rightarrow> string \<Rightarrow> bool" where
  "like_match [] t = (t = [])"
| "like_match (p # ps) t =
     (if p = CHR ''%'' then
        like_match ps t \<or> (case t of [] \<Rightarrow> False | c # cs \<Rightarrow> like_match (p # ps) cs)
      else if p = CHR ''_'' then
        (case t of [] \<Rightarrow> False | c # cs \<Rightarrow> like_match ps cs)
      else if p = CHR 0x5C then
        (case ps of [] \<Rightarrow> False
         | q # qs \<Rightarrow> (case t of [] \<Rightarrow> False | c # cs \<Rightarrow> c = q \<and> like_match qs cs))
      else
        (case t of [] \<Rightarrow> False | c # cs \<Rightarrow> c = p \<and> like_match ps cs))"

definition ilike :: "(string \<Rightarrow> string) \<Rightarrow> string \<Rightarrow> string \<Rightarrow> bool" where
  "ilike fc v pattern = like_match (fc pattern) (fc v)"

text \<open>A query on the \<^verbatim>\<open>Student\<close> entity returns each entity once, at its first row.\<close>

fun unique_list :: "('a \<Rightarrow> 'k) \<Rightarrow> 'k list \<Rightarrow> 'a list \<Rightarrow> 'a list" where
  "unique_list key seen [] = []"
| "unique_list key seen (x # xs) =
     (if key x \<in> set seen then unique_list key seen xs
      else x # unique_list key (key x # seen) xs)"

text \<open>\<^verbatim>\<open>db.query(Student).join(AcademicDetails)\<close>: the inner join on the foreign key, one
  row for each pair of a student and one of its academic rows. The list names the rows
  of the join; the order in which a query receives them is the database's.\<close>

definition join_academic_details :: "database \<Rightarrow> (student \<times> academic_row) list" where
  "join_academic_details db =
     filter (\<lambda>(s, a). s_id s = a_student_id a) (List.product (students db) (academic_details db))"

text \<open>\<^verbatim>\<open>if college:\<close>, \<^verbatim>\<open>if year:\<close>, \<^verbatim>\<open>if department:\<close> test the value for truth: \<^verbatim>\<open>None\<close>,
  the empty string and 0 are false. \<^verbatim>\<open>OFFSET\<close> and \<^verbatim>\<open>LIMIT\<close> count the rows of the
  filtered join as they come; the eager loads are joined outside, and the students are
  returned in the order of that outer query, each once.\<close>

definition search_students ::
  "engine \<Rightarrow> string option \<Rightarrow> int option \<Rightarrow> string option \<Rightarrow> int \<Rightarrow> int \<Rightarrow> database
     \<Rightarrow> error + student_response list" where
  "search_students e college year department' skip limit db =
     (if skip < 0 \<or> limit < 1 \<or> 100 < limit then Inl RequestValidationError
      else if 9223372036854775807 < skip then Inl DatabaseError
      else
        let query = sort_key (join_order e) (join_academic_details db);
            query = (case college of
                       None \<Rightarrow> query
                     | Some c \<Rightarrow>
                         if c = [] then query
                         else filter (\<lambda>(s, a). ilike (fold_case e) (college_name a) (''%'' @ c @ ''%'')) query);
            query = (case year of
                       None \<Rightarrow> query
                     | Some y \<Rightarrow>
                         if y = 0 then query
                         else filter (\<lambda>(s, a). graduation_year a = y) query);
            query = (case department' of
                       None \<Rightarrow> query
                     | Some d \<Rightarrow>
                         if d = [] then query
                         else filter (\<lambda>(s, a). ilike (fold_case e) (department a) (''%'' @ d @ ''%'')) query);
            rows = take (nat limit) (drop (nat skip) query)
        in Inr (map (populate db)
                  (unique_list s_id [] (sort_key (result_order e) (map fst rows)))))"

subsection \<open>\<^verbatim>\<open>get_student\<close>, \<^verbatim>\<open>update_student\<close>\<close>

definition get_student :: "int \<Rightarrow> database \<Rightarrow> error + student_response" where
  "get_student student_id db =
     (case find (\<lambda>s. s_id s = student_id) (students db) of
        None \<Rightarrow> Inl (HTTPException 404 ''Student not found'')
      | Some student \<Rightarrow> Inr (populate db student))"

text \<open>\<^verbatim>\<open>setattr(student, field, value)\<close> for the fields of \<^verbatim>\<open>update_data\<close>: a field the
  request has not set keeps the stored value; \<^verbatim>\<open>null\<close> is refused at the commit by
  \<^verbatim>\<open>nullable=False\<close>.\<close>

definition assign_col :: "nat \<Rightarrow> string option option \<Rightarrow> string \<Rightarrow> string option" where
  "assign_col n u old =
     (case u of None \<Rightarrow> Some old | Some None \<Rightarrow> None | Some (Some v) \<Rightarrow> varchar n v)"

definition set_student :: "student_update \<Rightarrow> student \<Rightarrow> student option" where
  "set_student u s = do {
     n \<leftarrow> assign_col 100 (su_name u) (name s);
     e \<leftarrow> assign_col 100 (su_email u) (email s);
     p \<leftarrow> assign_col 15 (su_phone u) (phone s);
     g \<leftarrow> assign_col 10 (su_gender u) (gender s);
     Some (s\<lparr>name := n, email := e, phone := p, gender := g\<rparr>)
   }"

text \<open>\<^verbatim>\<open>academic_data = student_update.academic_details.dict()\<close> holds all five fields,
  \<^verbatim>\<open>backlogs\<close> with its default when the request left it out.\<close>

definition set_academic :: "academic_details_base \<Rightarrow> academic_row \<Rightarrow> academic_row option" where
  "set_academic data a = do {
     c \<leftarrow> varchar 200 (college_name data);
     d \<leftarrow> varchar 100 (department data);
     y \<leftarrow> integer_col (graduation_year data);
     b \<leftarrow> integer_col (backlogs data);
     Some (a\<lparr>college_name := c, department := d, graduation_year := y, cgpa := cgpa data,
             backlogs := b\<rparr>)
   }"

text \<open>The \<^verbatim>\<open>UPDATE\<close> statements address a row by its primary key.\<close>

definition store_student :: "student \<Rightarrow> database \<Rightarrow> database" where
  "store_student s' db =
     db\<lparr>students := map (\<lambda>r. if s_id r = s_id s' then s' else r) (students db)\<rparr>"

definition store_academic :: "academic_row \<Rightarrow> database \<Rightarrow> database" where
  "store_academic a' db =
     db\<lparr>academic_details := map (\<lambda>r. if a_id r = a_id a' then a' else r) (academic_details db)\<rparr>"

text \<open>The single \<^verbatim>\<open>db.commit()\<close> of \<^verbatim>\<open>update_student\<close>: both updates or none. A changed
  email must not be the email of another row.\<close>

definition commit_update ::
  "int \<Rightarrow> student_update \<Rightarrow> student \<Rightarrow> database \<Rightarrow> (student \<times> database) option" where
  "commit_update student_id student_update student db = do {
     student' \<leftarrow> set_student student_update student;
     db1 \<leftarrow> (if email student' \<noteq> email student \<and>
               email student' \<in> set (map email (filter (\<lambda>r. s_id r \<noteq> student_id) (students db)))
            then None else Some (store_student student' db));
     db2 \<leftarrow> (case su_academic_details student_update of
              None \<Rightarrow> Some db1
            | Some data \<Rightarrow>
                (case find (\<lambda>a. a_student_id a = student_id) (academic_details db) of
                   None \<Rightarrow> Some db1
                 | Some academic \<Rightarrow>
                     map_option (\<lambda>academic'. store_academic academic' db1)
                       (set_academic data academic)));
     Some (student', db2)
   }"

definition update_student ::
  "int \<Rightarrow> student_update \<Rightarrow> database \<Rightarrow> (error + student_response) \<times> database" where
  "update_student student_id student_update db =
     (case find (\<lambda>s. s_id s = student_id) (students db) of
        None \<Rightarrow> (Inl (HTTPException 404 ''Student not found''), db)
      | Some student \<Rightarrow>
          (case commit_update student_id student_update student db of
             None \<Rightarrow> (Inl DatabaseError, db)
           | Some (student', db') \<Rightarrow> (Inr (populate db' student'), db')))"

subsection \<open>\<^verbatim>\<open>delete_student\<close> and the documents\<close>

text \<open>The upload directory is the set of the paths of its files. \<^verbatim>\<open>db.delete(student)\<close>
  with \<^verbatim>\<open>cascade="all, delete-orphan"\<close> on both relationships deletes the rows of both
  collections with the student row, in one commit.\<close>

type_synonym world = "database \<times> string set"

definition delete_student :: "int \<Rightarrow> world \<Rightarrow> (error + string) \<times> world" where
  "delete_student student_id w =
     (case w of (db, files) \<Rightarrow>
        (case find (\<lambda>s. s_id s = student_id) (students db) of
           None \<Rightarrow> (Inl (HTTPException 404 ''Student not found''), w)
         | Some student \<Rightarrow>
             let files' = fold (\<lambda>doc fs. if file_path doc \<in> fs then fs - {file_path doc} else fs)
                            (documents_of db student_id) files;
                 db' = db\<lparr>students := filter (\<lambda>s. s_id s \<noteq> student_id) (students db),
                          academic_details :=
                            filter (\<lambda>a. a_student_id a \<noteq> student_id) (academic_details db),
                          documents := filter (\<lambda>d. d_student_id d \<noteq> student_id) (documents db)\<rparr>
             in (Inr ''Student deleted successfully'', (db', files'))))"

text \<open>\<^verbatim>\<open>str\<close> of an integer, for the file names.\<close>

fun digits :: "nat \<Rightarrow> string" where
  "digits n = (if n < 10 then [char_of (48 + n)] else digits (n div 10) @ [char_of (48 + n mod 10)])"

definition str_int :: "int \<Rightarrow> string" where
  "str_int i = (if i < 0 then CHR ''-'' # digits (nat (- i)) else digits (nat i))"

definition UPLOAD_DIR :: string where
  "UPLOAD_DIR = ''student_upload_files''"

text \<open>\<^verbatim>\<open>upload_documents\<close>: \<open>can_open path\<close> says whether \<^verbatim>\<open>open(path, "wb")\<close> succeeds,
  which the file system decides. Both rows are added to the session and committed
  together; a file already written stays when the commit fails.\<close>

definition upload_documents ::
  "(string \<Rightarrow> bool) \<Rightarrow> int \<Rightarrow> string \<Rightarrow> string option \<Rightarrow> datetime \<Rightarrow> world
     \<Rightarrow> (error + (string \<times> string) list) \<times> world" where
  "upload_documents can_open student_id resume id_proof now w =
     (case w of (db, files) \<Rightarrow>
        (case find (\<lambda>s. s_id s = student_id) (students db) of
           None \<Rightarrow> (Inl (HTTPException 404 ''Student not found''), w)
         | Some student \<Rightarrow>
             let resume_path = UPLOAD_DIR @ ''/'' @ ''student_'' @ str_int student_id @ ''_resume_'' @ resume
             in if \<not> can_open resume_path then (Inl OSError, w)
                else
                  let files1 = insert resume_path files;
                      docs1 = insert_document student_id ''resume'' resume_path now db
                  in (case id_proof of
                        None \<Rightarrow>
                          (case docs1 of
                             None \<Rightarrow> (Inl DatabaseError, (db, files1))
                           | Some db1 \<Rightarrow> (Inr [(''resume'', resume)], (db1, files1)))
                      | Some idp \<Rightarrow>
                          let id_path = UPLOAD_DIR @ ''/'' @ ''student_'' @ str_int student_id @ ''_id_'' @ idp
                          in if \<not> can_open id_path then (Inl OSError, (db, files1))
                             else
                               let files2 = insert id_path files1
                               in (case Option.bind docs1 (insert_document student_id ''id_proof'' id_path now) of
                                     None \<Rightarrow> (Inl DatabaseError, (db, files2))
                                   | Some db2 \<Rightarrow>
                                       (Inr [(''resume'', resume), (''id_proof'', idp)], (db2, files2))))))"

text \<open>\<^verbatim>\<open>download_document\<close>: the answer is the path of the file and the name it is sent
  under.\<close>

definition download_document :: "int \<Rightarrow> int \<Rightarrow> world \<Rightarrow> error + string \<times> string" where
  "download_document student_id doc_id w =
     (case w of (db, files) \<Rightarrow>
        (case find (\<lambda>d. d_id d = doc_id \<and> d_student_id d = student_id) (documents db) of
           None \<Rightarrow> Inl (HTTPException 404 ''Document not found'')
         | Some document \<Rightarrow>
             if file_path document \<notin> files then Inl (HTTPException 404 ''File not found on server'')
             else Inr (file_path document, doc_type document @ ''_'' @ str_int student_id @ ''.pdf'')))"

subsection \<open>Seed data\<close>

text \<open>The first two entries of \<^verbatim>\<open>dummy_students\<close> in \<^verbatim>\<open>create_dummy_data\<close>, and the
  store that holds them.\<close>

definition empty_db :: database where
  "empty_db =
     \<lparr>students = [], academic_details = [], documents = [],
      students_id_seq = 1, academic_details_id_seq = 1, documents_id_seq = 1\<rparr>"

definition rahul :: student_create where
  "rahul =
     \<lparr>name = ''Rahul Sharma'', email = ''rahul.sharma@email.com'', phone = ''+91-9876543210'',
      gender = ''Male'',
      sc_academic_details =
        \<lparr>college_name = ''Indian Institute of Technology Delhi'', department = ''Computer Science'',
         graduation_year = 2024, cgpa = 85 / 10, backlogs = 0\<rparr>\<rparr>"

definition priya :: student_create where
  "priya =
     \<lparr>name = ''Priya Patel'', email = ''priya.patel@email.com'', phone = ''+91-9876543211'',
      gender = ''Female'',
      sc_academic_details =
        \<lparr>college_name = ''Delhi University'', department = ''Information Technology'',
         graduation_year = 2025, cgpa = 91 / 10, backlogs = 0\<rparr>\<rparr>"

definition rahul_row :: student where
  "rahul_row =
     \<lparr>name = ''Rahul Sharma'', email = ''rahul.sharma@email.com'', phone = ''+91-9876543210'',
      gender = ''Male'', s_id = 1, created_at = 0\<rparr>"

definition priya_row :: student where
  "priya_row =
     \<lparr>name = ''Priya Patel'', email = ''priya.patel@email.com'', phone = ''+91-9876543211'',
      gender = ''Female'', s_id = 2, created_at = 0\<rparr>"

definition rahul_academic :: academic_row where
  "rahul_academic =
     \<lparr>college_name = ''Indian Institute of Technology Delhi'', department = ''Computer Science'',
      graduation_year = 2024, cgpa = 85 / 10, backlogs = 0, a_id = 1, a_student_id = 1\<rparr>"

definition priya_academic :: academic_row where
  "priya_academic =
     \<lparr>college_name = ''Delhi University'', department = ''Information Technology'',
      graduation_year = 2025, cgpa = 91 / 10, backlogs = 0, a_id = 2, a_student_id = 2\<rparr>"

definition seeded_db :: database where
  "seeded_db =
     \<lparr>students = [rahul_row, priya_row], academic_details = [rahul_academic, priya_academic],
      documents = [],
      students_id_seq = 3, academic_details_id_seq = 3, documents_id_seq = 1\<rparr>"

text \<open>A database in the C locale, whose case folding touches the letters A to Z only, and
  which yields every row in the order of the table; and the same database when its
  outer query returns the students by descending id.\<close>

definition ascii_lower :: "char \<Rightarrow> char" where
  "ascii_lower c =
     (let n = (of_char c :: nat) in if 65 \<le> n \<and> n \<le> 90 then char_of (n + 32) else c)"

definition table_order :: engine where
  "table_order =
     \<lparr>fold_case = map ascii_lower, scan_order = (\<lambda>s. 0), join_order = (\<lambda>row. 0),
      result_order = (\<lambda>s. 0)\<rparr>"

definition descending_id :: engine where
  "descending_id = table_order\<lparr>result_order := (\<lambda>s. - s_id s)\<rparr>"

subsection \<open>Auxiliary notions\<close>

text \<open>The filters \<^verbatim>\<open>search_students\<close> applies, as one predicate on a row of the join.\<close>

definition row_filter ::
  "(string \<Rightarrow> string) \<Rightarrow> string option \<Rightarrow> int option \<Rightarrow> string option
     \<Rightarrow> student \<times> academic_row \<Rightarrow> bool" where
  "row_filter fc college year department' row =
     ((case college of None \<Rightarrow> True
       | Some c \<Rightarrow> c = [] \<or> ilike fc (college_name (snd row)) (''%'' @ c @ ''%'')) \<and>
      (case year of None \<Rightarrow> True | Some y \<Rightarrow> y = 0 \<or> graduation_year (snd row) = y) \<and>
      (case department' of None \<Rightarrow> True
       | Some d \<Rightarrow> d = [] \<or> ilike fc (department (snd row)) (''%'' @ d @ ''%'')))"

text \<open>The request body \<^verbatim>\<open>{"name": v}\<close> of \<^verbatim>\<open>update_student\<close>.\<close>

definition name_only :: "string \<Rightarrow> student_update" where
  "name_only v =
     \<lparr>su_name = Some (Some v), su_email = None, su_phone = None, su_gender = None,
      su_academic_details = None\<rparr>"

text \<open>A request body of \<^verbatim>\<open>update_student\<close> with the academic-details object only, the
  object used below, and Rahul's academic row after that update.\<close>

definition academic_only :: "academic_details_base \<Rightarrow> student_update" where
  "academic_only data =
     \<lparr>su_name = None, su_email = None, su_phone = None, su_gender = None,
      su_academic_details = Some data\<rparr>"

definition bits_pilani :: academic_details_base where
  "bits_pilani =
     \<lparr>college_name = ''BITS Pilani'', department = ''Electronics'', graduation_year = 2026,
      cgpa = 7, backlogs = 2\<rparr>"

definition rahul_bits :: academic_row where
  "rahul_bits =
     \<lparr>college_name = ''BITS Pilani'', department = ''Electronics'', graduation_year = 2026,
      cgpa = 7, backlogs = 2, a_id = 1, a_student_id = 1\<rparr>"

text \<open>No orphaned child: every academic row and every document row is owned by a stored
  student.\<close>

definition no_orphans :: "database \<Rightarrow> bool" where
  "no_orphans db =
     (list_all (\<lambda>a. a_student_id a \<in> set (map s_id (students db))) (academic_details db) \<and>
      list_all (\<lambda>d. d_student_id d \<in> set (map s_id (students db))) (documents db))"

text \<open>The seeded store after Rahul's resume \<^verbatim>\<open>cv.pdf\<close> has been uploaded.\<close>

definition rahul_resume :: document_row where
  "rahul_resume =
     \<lparr>d_id = 1, d_student_id = 1, doc_type = ''resume'',
      file_path = ''student_upload_files/student_1_resume_cv.pdf'', uploaded_at = 0\<rparr>"

definition uploaded_db :: database where
  "uploaded_db = seeded_db\<lparr>documents := [rahul_resume], documents_id_seq := 2\<rparr>"


text \<open>A filter value without the pattern characters of \<^verbatim>\<open>LIKE\<close>.\<close>

definition plain :: "string \<Rightarrow> bool" where
  "plain v = list_all (\<lambda>c. c \<noteq> CHR ''%'' \<and> c \<noteq> CHR ''_'' \<and> c \<noteq> CHR 0x5C) v"

text \<open>A filter that is absent, or whose value has no pattern character, has none once
  its case is folded, and is folded between the two \<^verbatim>\<open>%\<close> of the pattern as it is on its
  own.\<close>

definition plain_for :: "(string \<Rightarrow> string) \<Rightarrow> string option \<Rightarrow> bool" where
  "plain_for fc v =
     (case v of
        None \<Rightarrow> True
      | Some c \<Rightarrow> plain c \<and> plain (fc c) \<and> fc (''%'' @ c @ ''%'') = ''%'' @ fc c @ ''%'')"

text \<open>The search as the specification words it: college and department match as
  case-insensitive substrings anywhere in the field (two texts are the same without
  case when the case folding of the database makes them equal), the year matches
  exactly, the filters given are conjoined on an academic row of the student.\<close>

definition contains_ci :: "(string \<Rightarrow> string) \<Rightarrow> string \<Rightarrow> string \<Rightarrow> bool" where
  "contains_ci fc needle field = sublist (fc needle) (fc field)"

definition spec_matches ::
  "(string \<Rightarrow> string) \<Rightarrow> string option \<Rightarrow> int option \<Rightarrow> string option \<Rightarrow> academic_row \<Rightarrow> bool" where
  "spec_matches fc college year department' a =
     ((case college of None \<Rightarrow> True | Some c \<Rightarrow> contains_ci fc c (college_name a)) \<and>
      (case year of None \<Rightarrow> True | Some y \<Rightarrow> graduation_year a = y) \<and>
      (case department' of None \<Rightarrow> True | Some d \<Rightarrow> contains_ci fc d (department a)))"

definition spec_search ::
  "(string \<Rightarrow> string) \<Rightarrow> string option \<Rightarrow> int option \<Rightarrow> string option \<Rightarrow> database
     \<Rightarrow> student list" where
  "spec_search fc college year department' db =
     filter (\<lambda>s. list_ex (\<lambda>a. a_student_id a = s_id s \<and>
                              spec_matches fc college year department' a)
                  (academic_details db))
       (students db)"

text \<open>The year filter \<^verbatim>\<open>if year:\<close> lets through: 0 counts as no filter.\<close>

definition applied_year :: "int option \<Rightarrow> int option" where
  "applied_year year = (if year = Some 0 then None else year)"

section \<open>Properties\<close>

subsection \<open>Facts about the orders and the search query\<close>

lemma sort_key_const: "sort_key (\<lambda>x. c) xs = xs"
  by (induction xs) (simp_all add: insort_is_Cons)

lemma filter_snd_conv: "filter (\<lambda>(s, a). P a) xs = filter (\<lambda>row. P (snd row)) xs"
  by (simp add: case_prod_unfold)

lemma search_students_rows:
  assumes "0 \<le> skip" "1 \<le> limit" "limit \<le> 100" "skip \<le> 9223372036854775807"
  shows "search_students e college year department' skip limit db =
         Inr (map (populate db) (unique_list s_id [] (sort_key (result_order e)
           (map fst (take (nat limit) (drop (nat skip)
              (filter (row_filter (fold_case e) college year department')
                 (sort_key (join_order e) (join_academic_details db)))))))))"
  using assms
  by (cases college; cases year; cases department')
     (auto simp add: search_students_def row_filter_def [abs_def] Let_def filter_snd_conv
        intro!: arg_cong [where f = "\<lambda>q. unique_list s_id [] (sort_key (result_order e)
            (map fst (take (nat limit) (drop (nat skip) q))))"]
          filter_cong)

lemma search_students_Inr:
  "search_students e college year department' skip limit db = Inr rs \<Longrightarrow>
     0 \<le> skip \<and> 1 \<le> limit \<and> limit \<le> 100 \<and> skip \<le> 9223372036854775807"
  by (auto simp: search_students_def split: if_splits)

lemma set_unique_list: "set (unique_list key seen xs) \<subseteq> set xs"
  by (induction xs arbitrary: seen) auto

lemma join_academic_details_iff:
  "(s, a) \<in> set (join_academic_details db) \<longleftrightarrow>
     s \<in> set (students db) \<and> a \<in> set (academic_details db) \<and> s_id s = a_student_id a"
  by (auto simp: join_academic_details_def)

lemmas seed_defs = seeded_db_def rahul_row_def priya_row_def rahul_academic_def priya_academic_def

lemma search_all_seeded:
  "search_students table_order None None None 0 10 seeded_db =
     Inr [populate seeded_db rahul_row, populate seeded_db priya_row]"
  by (simp add: search_students_def join_academic_details_def table_order_def sort_key_const
      seed_defs)

subsection \<open>Pagination parameters\<close>

text \<open>C8. \<^verbatim>\<open>get_students\<close> rejects pagination parameters out of range: with
  \<open>skip < 0\<close>, \<open>limit < 1\<close> or \<open>limit > 100\<close> the request ends with the validation
  error and no page is returned, whatever the store holds and whatever the database
  would do; nothing is clamped.\<close>

theorem get_students_rejects_out_of_range:
  "skip < 0 \<or> limit < 1 \<or> 100 < limit \<Longrightarrow> get_students e skip limit db = Inl RequestValidationError"
  by (simp add: get_students_def)

text \<open>At \<open>limit = 0\<close>, \<open>limit = 101\<close> and \<open>skip = -1\<close> on the seeded store.\<close>

theorem get_students_rejects_out_of_range_witness:
  "((0::int) < 0 \<or> (0::int) < 1 \<or> (100::int) < 0) \<and>
   get_students table_order 0 0 seeded_db = Inl RequestValidationError \<and>
   get_students table_order 0 101 seeded_db = Inl RequestValidationError \<and>
   get_students table_order (- 1) 10 seeded_db = Inl RequestValidationError"
  using get_students_rejects_out_of_range [of 0 0 table_order seeded_db]
    get_students_rejects_out_of_range [of 0 101 table_order seeded_db]
    get_students_rejects_out_of_range [of "- 1" 10 table_order seeded_db]
  by simp

subsection \<open>Duplicate email\<close>

text \<open>C3. When a stored student already has the email of the request (the same string,
  character for character), \<^verbatim>\<open>create_student\<close> ends with the 400 answer
  "Email already registered" and the store is the one it started from: no student row
  and no academic row is added.\<close>

theorem create_student_duplicate_email:
  "s \<in> set (students db) \<Longrightarrow> email s = email student \<Longrightarrow>
     create_student student now db = (Inl (HTTPException 400 ''Email already registered''), db)"
  by (auto simp: create_student_def find_None_iff split: option.splits)

theorem create_student_duplicate_email_witness:
  "rahul_row \<in> set (students seeded_db) \<and> email rahul_row = email rahul \<and>
   create_student rahul 7 seeded_db = (Inl (HTTPException 400 ''Email already registered''), seeded_db)"
proof -
  have 1: "rahul_row \<in> set (students seeded_db)" by (simp add: seeded_db_def)
  have 2: "email rahul_row = email rahul" by (simp add: rahul_row_def rahul_def)
  from create_student_duplicate_email [OF 1 2] 1 2 show ?thesis by simp
qed

subsection \<open>Search: falsy filters and the inner join\<close>

text \<open>C9. \<^verbatim>\<open>search_students\<close> applies a filter only when its value is truthy: a call
  with \<open>year = 0\<close> is the call without a year filter (it does not look for graduation
  year 0), and a call with the empty string for college or department is the call
  without that filter.\<close>

theorem search_students_falsy_filters:
  "search_students e college (Some 0) department' skip limit db =
     search_students e college None department' skip limit db \<and>
   search_students e (Some []) year department' skip limit db =
     search_students e None year department' skip limit db \<and>
   search_students e college year (Some []) skip limit db =
     search_students e college year None skip limit db"
  by (simp add: search_students_def)

text \<open>On the seeded store, \<open>year = 0\<close> returns both students, whose graduation years are
  2024 and 2025.\<close>

theorem search_students_falsy_filters_witness:
  "search_students table_order None (Some 0) None 0 10 seeded_db =
     Inr [populate seeded_db rahul_row, populate seeded_db priya_row] \<and>
   search_students table_order (Some []) None (Some []) 0 10 seeded_db =
     Inr [populate seeded_db rahul_row, populate seeded_db priya_row] \<and>
   graduation_year rahul_academic \<noteq> 0"
  using search_students_falsy_filters [of table_order None None 0 10 seeded_db None]
    search_students_falsy_filters [of table_order "Some []" None 0 10 seeded_db None]
    search_all_seeded
  by (simp add: rahul_academic_def)

text \<open>C10. \<^verbatim>\<open>search_students\<close> joins \<^verbatim>\<open>AcademicDetails\<close> whatever the filters are, all
  three absent included: every student of a search result owns at least one academic
  row, so a student without any never appears in a result.\<close>

theorem search_students_requires_academic_row:
  assumes "search_students e college year department' skip limit db = Inr rs" and "r \<in> set rs"
  shows "r_academic_details r \<noteq> [] \<and> academic_details_of db (s_id (r_student r)) \<noteq> []"
proof -
  note ok = search_students_Inr [OF assms(1)]
  let ?rows = "take (nat limit) (drop (nat skip)
              (filter (row_filter (fold_case e) college year department')
                 (sort_key (join_order e) (join_academic_details db))))"
  from assms(1) ok
  have rs: "rs = map (populate db)
                   (unique_list s_id [] (sort_key (result_order e) (map fst ?rows)))"
    by (simp add: search_students_rows)
  with assms(2) obtain s where r: "r = populate db s"
    and "s \<in> set (unique_list s_id [] (sort_key (result_order e) (map fst ?rows)))"
    by auto
  then have "s \<in> set (sort_key (result_order e) (map fst ?rows))"
    using set_unique_list by fastforce
  then have "s \<in> set (map fst ?rows)"
    by simp
  then obtain a where "(s, a) \<in> set ?rows" by auto
  then have "(s, a) \<in> set (filter (row_filter (fold_case e) college year department')
                 (sort_key (join_order e) (join_academic_details db)))"
    by (meson in_set_dropD in_set_takeD)
  then have "(s, a) \<in> set (join_academic_details db)"
    by simp
  then have "a \<in> set (academic_details db)" "a_student_id a = s_id s"
    by (simp_all add: join_academic_details_iff)
  then have "academic_details_of db (s_id s) \<noteq> []"
    by (auto simp: academic_details_of_def filter_empty_conv)
  with r show ?thesis by (simp add: populate_def)
qed

text \<open>The seeded store without Rahul's academic row: the search without filters returns
  Priya only.\<close>

theorem search_students_requires_academic_row_witness:
  "search_students table_order None None None 0 10 (seeded_db\<lparr>academic_details := [priya_academic]\<rparr>) =
     Inr [populate (seeded_db\<lparr>academic_details := [priya_academic]\<rparr>) priya_row] \<and>
   r_academic_details (populate (seeded_db\<lparr>academic_details := [priya_academic]\<rparr>) priya_row) \<noteq> [] \<and>
   academic_details_of (seeded_db\<lparr>academic_details := [priya_academic]\<rparr>) (s_id priya_row) \<noteq> [] \<and>
   academic_details_of (seeded_db\<lparr>academic_details := [priya_academic]\<rparr>) (s_id rahul_row) = []"
proof -
  let ?db = "seeded_db\<lparr>academic_details := [priya_academic]\<rparr>"
  have run: "search_students table_order None None None 0 10 ?db = Inr [populate ?db priya_row]"
    by (simp add: search_students_def join_academic_details_def table_order_def sort_key_const
        seed_defs)
  have "r_academic_details (populate ?db priya_row) \<noteq> [] \<and>
        academic_details_of ?db (s_id (r_student (populate ?db priya_row))) \<noteq> []"
    by (rule search_students_requires_academic_row [OF run]) simp
  moreover have "academic_details_of ?db (s_id rahul_row) = []"
    by (simp add: academic_details_of_def seed_defs)
  ultimately show ?thesis using run by (simp add: populate_def)
qed

subsection \<open>Consecutive pages\<close>

lemma r_student_populate [simp]: "r_student (populate db s) = s"
  by (simp add: populate_def)

lemma get_students_page:
  "0 \<le> skip \<Longrightarrow> skip \<le> 9223372036854775807 \<Longrightarrow> 1 \<le> limit \<Longrightarrow> limit \<le> 100 \<Longrightarrow>
     get_students e skip limit db =
       Inr (map (populate db) (sort_key (result_order e)
              (take (nat limit) (drop (nat skip) (sort_key (scan_order e) (students db))))))"
  by (simp add: get_students_def)

text \<open>C2 fails as stated. On the seeded store, with a database that reads the table as it
  is stored and returns the students of the outer query by descending id, the pages of
  one student hold Rahul and then Priya, while the page of two lists Priya before Rahul:
  the pages are not cut from the listing in its order, and no one order of the students
  gives all three answers.\<close>

theorem get_students_no_stable_order:
  "get_students descending_id 0 1 seeded_db = Inr [populate seeded_db rahul_row] \<and>
   get_students descending_id 1 1 seeded_db = Inr [populate seeded_db priya_row] \<and>
   get_students descending_id 0 2 seeded_db =
     Inr [populate seeded_db priya_row, populate seeded_db rahul_row]"
  by (simp add: get_students_def descending_id_def table_order_def sort_key_const seed_defs)

text \<open>C2, amended. On a store whose student ids are distinct (the primary key), for a
  page size \<open>N\<close> the validation accepts, and when the database reads the students table
  in the same order for both calls: \<^verbatim>\<open>get_students(skip=0, limit=N)\<close> and
  \<^verbatim>\<open>get_students(skip=N, limit=N)\<close> return two pages that together hold exactly the first
  \<open>2N\<close> students of that read, each once; no student is in both pages, and the second
  page is empty unless the first is full. The order in which a page lists its students
  is the one of the database in that call.\<close>

theorem get_students_consecutive_pages:
  assumes pk: "distinct (map s_id (students db))" and N: "1 \<le> N" "N \<le> 100"
    and same: "scan_order e2 = scan_order e1"
  shows "\<exists>p1 p2.
           get_students e1 0 N db = Inr p1 \<and> get_students e2 N N db = Inr p2 \<and>
           mset (p1 @ p2) =
             mset (map (populate db) (take (nat (2 * N)) (sort_key (scan_order e1) (students db)))) \<and>
           distinct (map (s_id \<circ> r_student) (p1 @ p2)) \<and>
           set (map (s_id \<circ> r_student) p1) \<inter> set (map (s_id \<circ> r_student) p2) = {} \<and>
           (p2 \<noteq> [] \<longrightarrow> length p1 = nat N)"
proof -
  let ?scan = "sort_key (scan_order e1) (students db)"
  let ?s1 = "take (nat N) ?scan"
  let ?s2 = "take (nat N) (drop (nat N) ?scan)"
  let ?p1 = "map (populate db) (sort_key (result_order e1) ?s1)"
  let ?p2 = "map (populate db) (sort_key (result_order e2) ?s2)"
  have g1: "get_students e1 0 N db = Inr ?p1"
    using N by (simp add: get_students_page)
  have g2: "get_students e2 N N db = Inr ?p2"
    using N by (simp add: get_students_page same)
  have "nat (2 * N) = nat N + nat N" using N by simp
  then have cut: "take (nat (2 * N)) ?scan = ?s1 @ ?s2"
    by (simp add: take_add)
  have ms: "mset (?p1 @ ?p2) = mset (map (populate db) (take (nat (2 * N)) ?scan))"
    unfolding cut by simp
  have "distinct (map s_id ?scan)"
    using pk by (simp add: distinct_map inj_on_def)
  then have "distinct (map s_id (take (nat (2 * N)) ?scan))"
    by (simp add: distinct_take flip: take_map)
  then have "distinct (map s_id (?s1 @ ?s2))"
    unfolding cut .
  moreover have "mset (map (s_id \<circ> r_student) (?p1 @ ?p2)) = mset (map s_id (?s1 @ ?s2))"
    by (simp add: comp_def)
  ultimately have dist: "distinct (map (s_id \<circ> r_student) (?p1 @ ?p2))"
    using mset_eq_imp_distinct_iff by blast
  then have disj: "set (map (s_id \<circ> r_student) ?p1) \<inter> set (map (s_id \<circ> r_student) ?p2) = {}"
    unfolding map_append distinct_append by blast
  have "length ?s2 \<noteq> 0 \<longrightarrow> length ?s1 = nat N"
    by (auto simp: min_def)
  moreover have "length ?p1 = length ?s1" "length ?p2 = length ?s2"
    by simp_all
  ultimately have full: "?p2 \<noteq> [] \<longrightarrow> length ?p1 = nat N"
    by (metis length_0_conv)
  from g1 g2 ms dist disj full show ?thesis by blast
qed

text \<open>Pages of one student each on the seeded store, the first call with the students in
  the order of the table, the second with the database that returns them by descending
  id; both read the table as it is stored.\<close>

theorem get_students_consecutive_pages_witness:
  "distinct (map s_id (students seeded_db)) \<and> (1::int) \<le> 1 \<and> (1::int) \<le> 100 \<and>
   scan_order descending_id = scan_order table_order \<and>
   get_students table_order 0 1 seeded_db = Inr [populate seeded_db rahul_row] \<and>
   get_students descending_id 1 1 seeded_db = Inr [populate seeded_db priya_row] \<and>
   mset ([populate seeded_db rahul_row] @ [populate seeded_db priya_row]) =
     mset (map (populate seeded_db)
            (take (nat (2 * 1)) (sort_key (scan_order table_order) (students seeded_db)))) \<and>
   set (map (s_id \<circ> r_student) [populate seeded_db rahul_row]) \<inter>
     set (map (s_id \<circ> r_student) [populate seeded_db priya_row]) = {}"
proof -
  have pk: "distinct (map s_id (students seeded_db))" by (simp add: seed_defs)
  have same: "scan_order descending_id = scan_order table_order"
    by (simp add: descending_id_def)
  have g1: "get_students table_order 0 1 seeded_db = Inr [populate seeded_db rahul_row]"
    by (simp add: get_students_def table_order_def sort_key_const seeded_db_def)
  have g2: "get_students descending_id 1 1 seeded_db = Inr [populate seeded_db priya_row]"
    by (simp add: get_students_def descending_id_def table_order_def sort_key_const seeded_db_def)
  have N: "(1::int) \<le> 1" "(1::int) \<le> 100" by simp_all
  from get_students_consecutive_pages [OF pk N same]
  obtain p1 p2 where p: "get_students table_order 0 1 seeded_db = Inr p1 \<and>
      get_students descending_id 1 1 seeded_db = Inr p2 \<and>
      mset (p1 @ p2) =
        mset (map (populate seeded_db)
               (take (nat (2 * 1)) (sort_key (scan_order table_order) (students seeded_db)))) \<and>
      distinct (map (s_id \<circ> r_student) (p1 @ p2)) \<and>
      set (map (s_id \<circ> r_student) p1) \<inter> set (map (s_id \<circ> r_student) p2) = {} \<and>
      (p2 \<noteq> [] \<longrightarrow> length p1 = nat 1)"
    by blast
  from p g1 have p1: "p1 = [populate seeded_db rahul_row]" by simp
  from p g2 have p2: "p2 = [populate seeded_db priya_row]" by simp
  from p have "mset (p1 @ p2) =
        mset (map (populate seeded_db)
               (take (nat (2 * 1)) (sort_key (scan_order table_order) (students seeded_db))))"
    and "set (map (s_id \<circ> r_student) p1) \<inter> set (map (s_id \<circ> r_student) p2) = {}"
    by blast+
  with pk same g1 g2 N show ?thesis
    unfolding p1 p2 by (intro conjI)
qed

subsection \<open>Partial update\<close>

lemma find_store_row:
  assumes "key s' = k"
  shows "find (\<lambda>r. key r = k) (map (\<lambda>r. if key r = k then s' else r) xs) =
         (case find (\<lambda>r. key r = k) xs of None \<Rightarrow> None | Some _ \<Rightarrow> Some s')"
  using assms by (induction xs) auto

lemma filter_store_row:
  assumes "key s' = k"
  shows "filter (\<lambda>r. key r \<noteq> k) (map (\<lambda>r. if key r = k then s' else r) xs) =
         filter (\<lambda>r. key r \<noteq> k) xs"
  using assms by (induction xs) auto

lemma find_Some_key: "find (\<lambda>r. key r = k) xs = Some s \<Longrightarrow> key s = k \<and> s \<in> set xs"
  by (auto simp: find_Some_iff)

lemma assign_col_unset [simp]: "assign_col n None old = Some old"
  by (simp add: assign_col_def)

lemma set_student_frame:
  assumes "set_student u s = Some s'"
  shows "s_id s' = s_id s \<and> created_at s' = created_at s \<and>
         (su_name u = None \<longrightarrow> name s' = name s) \<and>
         (su_email u = None \<longrightarrow> email s' = email s) \<and>
         (su_phone u = None \<longrightarrow> phone s' = phone s) \<and>
         (su_gender u = None \<longrightarrow> gender s' = gender s)"
  using assms by (auto simp: set_student_def bind_eq_Some_conv)

lemma commit_update_students:
  assumes "commit_update sid u s db = Some (s', db')"
  shows "set_student u s = Some s' \<and>
         students db' = map (\<lambda>r. if s_id r = s_id s' then s' else r) (students db) \<and>
         documents db' = documents db"
  using assms
  by (auto simp: commit_update_def bind_eq_Some_conv store_student_def store_academic_def
      split: if_splits option.splits)

lemma commit_update_academic_absent:
  assumes "commit_update sid u s db = Some (s', db')" and "su_academic_details u = None"
  shows "academic_details db' = academic_details db"
  using assms
  by (auto simp: commit_update_def bind_eq_Some_conv store_student_def split: if_splits)

lemma update_name_seeded:
  "update_student 1 (name_only ''New Name'') seeded_db =
     (Inr (populate seeded_db (rahul_row\<lparr>name := ''New Name''\<rparr>)),
      seeded_db\<lparr>students := [rahul_row\<lparr>name := ''New Name''\<rparr>, priya_row]\<rparr>)"
  by (simp add: update_student_def commit_update_def set_student_def assign_col_def varchar_def
      store_student_def name_only_def seed_defs populate_def academic_details_of_def documents_of_def)

text \<open>C5. \<^verbatim>\<open>update_student\<close> on an existing student, whatever it answers: the row
  found under that id afterwards has the id and \<^verbatim>\<open>created_at\<close> it had, and each of name,
  email, phone, gender that the request does not have is the stored value (an absent
  field is never written as empty or null); when the request has no academic-details
  object the academic table is the one before; the documents table and the rows of all
  other students are the ones before; and a successful answer carries that row.\<close>

theorem update_student_frame:
  assumes found: "find (\<lambda>r. s_id r = sid) (students db) = Some s"
    and run: "update_student sid u db = (res, db')"
  shows "\<exists>s'. find (\<lambda>r. s_id r = sid) (students db') = Some s' \<and>
           s_id s' = s_id s \<and> created_at s' = created_at s \<and>
           (su_name u = None \<longrightarrow> name s' = name s) \<and>
           (su_email u = None \<longrightarrow> email s' = email s) \<and>
           (su_phone u = None \<longrightarrow> phone s' = phone s) \<and>
           (su_gender u = None \<longrightarrow> gender s' = gender s) \<and>
           (su_academic_details u = None \<longrightarrow> academic_details db' = academic_details db) \<and>
           documents db' = documents db \<and>
           filter (\<lambda>r. s_id r \<noteq> sid) (students db') = filter (\<lambda>r. s_id r \<noteq> sid) (students db) \<and>
           (\<forall>resp. res = Inr resp \<longrightarrow> r_student resp = s')"
proof (cases "commit_update sid u s db")
  case None
  with found have "update_student sid u db = (Inl DatabaseError, db)"
    by (simp add: update_student_def)
  with run have "db' = db" "res = Inl DatabaseError"
    by simp_all
  with found show ?thesis
    by (intro exI [of _ s]) simp
next
  case (Some p)
  then obtain s' db2 where c: "commit_update sid u s db = Some (s', db2)"
    by (cases p) auto
  with found have "update_student sid u db = (Inr (populate db2 s'), db2)"
    by (simp add: update_student_def)
  with run have res: "res = Inr (populate db2 s')" and db': "db2 = db'"
    by auto
  note st = commit_update_students [OF c [unfolded db']]
  from st have fr:
    "s_id s' = s_id s" "created_at s' = created_at s"
    "su_name u = None \<longrightarrow> name s' = name s"
    "su_email u = None \<longrightarrow> email s' = email s"
    "su_phone u = None \<longrightarrow> phone s' = phone s"
    "su_gender u = None \<longrightarrow> gender s' = gender s"
    using set_student_frame [of u s s'] by blast+
  have sid: "s_id s = sid" using find_Some_key [OF found] by blast
  then have sid': "s_id s' = sid" using fr by simp
  have f1: "find (\<lambda>r. s_id r = sid) (students db') = Some s'"
    using st found sid' by (simp add: find_store_row)
  have f2: "filter (\<lambda>r. s_id r \<noteq> sid) (students db') = filter (\<lambda>r. s_id r \<noteq> sid) (students db)"
    using st sid' by (simp add: filter_store_row)
  have f3: "su_academic_details u = None \<longrightarrow> academic_details db' = academic_details db"
    using commit_update_academic_absent [OF c [unfolded db']] by simp
  have f4: "documents db' = documents db" using st by simp
  have f5: "\<forall>resp. res = Inr resp \<longrightarrow> r_student resp = s'"
    using res by (simp add: populate_def)
  from f1 fr f2 f3 f4 f5 show ?thesis
    by (intro exI [of _ s']) blast
qed

text \<open>\<^verbatim>\<open>update_student(1, {"name": "New Name"})\<close> on the seeded store: the name is the new
  one; email, phone, gender and the academic table are the old ones.\<close>

theorem update_student_frame_witness:
  "find (\<lambda>r. s_id r = 1) (students seeded_db) = Some rahul_row \<and>
   update_student 1 (name_only ''New Name'') seeded_db =
     (Inr (populate seeded_db (rahul_row\<lparr>name := ''New Name''\<rparr>)),
      seeded_db\<lparr>students := [rahul_row\<lparr>name := ''New Name''\<rparr>, priya_row]\<rparr>) \<and>
   (\<exists>s'. find (\<lambda>r. s_id r = 1)
            (students (seeded_db\<lparr>students := [rahul_row\<lparr>name := ''New Name''\<rparr>, priya_row]\<rparr>)) = Some s' \<and>
         name s' = ''New Name'' \<and> email s' = email rahul_row \<and> phone s' = phone rahul_row \<and>
         gender s' = gender rahul_row) \<and>
   academic_details (seeded_db\<lparr>students := [rahul_row\<lparr>name := ''New Name''\<rparr>, priya_row]\<rparr>) =
     academic_details seeded_db"
proof -
  let ?db' = "seeded_db\<lparr>students := [rahul_row\<lparr>name := ''New Name''\<rparr>, priya_row]\<rparr>"
  have found: "find (\<lambda>r. s_id r = 1) (students seeded_db) = Some rahul_row"
    by (simp add: seed_defs)
  have absent: "su_email (name_only ''New Name'') = None" "su_phone (name_only ''New Name'') = None"
    "su_gender (name_only ''New Name'') = None" "su_academic_details (name_only ''New Name'') = None"
    by (simp_all add: name_only_def)
  from update_student_frame [OF found update_name_seeded] absent
  obtain s' where s': "find (\<lambda>r. s_id r = 1) (students ?db') = Some s'"
    "email s' = email rahul_row" "phone s' = phone rahul_row" "gender s' = gender rahul_row"
    "academic_details ?db' = academic_details seeded_db"
    by auto
  from s'(1) have "name s' = ''New Name''"
    by (auto simp add: rahul_row_def)
  with found update_name_seeded s' show ?thesis by blast
qed

subsection \<open>The academic-details object of an update\<close>

lemma set_academic_fields:
  assumes "set_academic data a = Some a'"
  shows "a_id a' = a_id a \<and> a_student_id a' = a_student_id a \<and>
         varchar 200 (college_name data) = Some (college_name a') \<and>
         varchar 100 (department data) = Some (department a') \<and>
         graduation_year a' = graduation_year data \<and> cgpa a' = cgpa data \<and>
         backlogs a' = backlogs data"
  using assms
  by (auto simp: set_academic_def bind_eq_Some_conv integer_col_def split: if_splits)

lemma varchar_fits: "length v \<le> n \<Longrightarrow> varchar n v = Some w \<Longrightarrow> w = v"
  by (simp add: varchar_def)

lemma commit_update_academic_present:
  assumes "commit_update sid u s db = Some (s', db')" and "su_academic_details u = Some data"
    and "find (\<lambda>r. a_student_id r = sid) (academic_details db) = Some a"
  shows "\<exists>a'. set_academic data a = Some a' \<and>
           academic_details db' = map (\<lambda>r. if a_id r = a_id a' then a' else r) (academic_details db)"
  using assms
  by (auto simp: commit_update_def bind_eq_Some_conv store_student_def store_academic_def
      split: if_splits)

lemma commit_update_no_academic_row:
  assumes "find (\<lambda>r. a_student_id r = sid) (academic_details db) = None"
  shows "commit_update sid u s db = commit_update sid (u\<lparr>su_academic_details := None\<rparr>) s db"
  using assms
  by (cases "su_academic_details u") (simp_all add: commit_update_def set_student_def)

lemma find_replaced_first:
  assumes "find (\<lambda>r. owner r = k) xs = Some a" and "owner a' = k"
  shows "find (\<lambda>r. owner r = k) (map (\<lambda>r. if key r = key a then a' else r) xs) = Some a'"
  using assms by (induction xs) (auto split: if_splits)

lemma set_student_all_unset:
  "su_name u = None \<Longrightarrow> su_email u = None \<Longrightarrow> su_phone u = None \<Longrightarrow> su_gender u = None \<Longrightarrow>
     set_student u s = Some s"
  by (simp add: set_student_def)

lemma update_academic_seeded:
  "update_student 1 (academic_only bits_pilani) seeded_db =
     (Inr (populate (seeded_db\<lparr>academic_details := [rahul_bits, priya_academic]\<rparr>) rahul_row),
      seeded_db\<lparr>academic_details := [rahul_bits, priya_academic]\<rparr>)"
  by (simp add: update_student_def commit_update_def set_student_def set_academic_def
      varchar_def integer_col_def store_student_def store_academic_def academic_only_def
      bits_pilani_def rahul_bits_def seed_defs)

lemma update_academic_no_row:
  "update_student 1 (academic_only bits_pilani) (seeded_db\<lparr>academic_details := [priya_academic]\<rparr>) =
     (Inr (populate (seeded_db\<lparr>academic_details := [priya_academic]\<rparr>) rahul_row),
      seeded_db\<lparr>academic_details := [priya_academic]\<rparr>)"
  by (simp add: update_student_def commit_update_def set_student_def
      store_student_def academic_only_def seed_defs)

text \<open>C7. \<^verbatim>\<open>update_student\<close> on an existing student with an academic-details object in
  the request. When the student has an academic row and the update succeeds, the first
  such row afterwards keeps its id and owner and has all five values of the object
  (college name and department as the columns store them, which is the value itself
  when it fits the column), whatever the row held before; the table is the old one
  with that row replaced. When the student has no academic row, the request behaves
  as the same request without the object: the academic table is unchanged, no row is
  inserted, and with no student-level field in the request the update succeeds.\<close>

theorem update_student_academic_details:
  assumes found: "find (\<lambda>r. s_id r = sid) (students db) = Some s"
    and sub: "su_academic_details u = Some data"
  shows "(\<forall>a res db'.
            find (\<lambda>r. a_student_id r = sid) (academic_details db) = Some a \<longrightarrow>
            update_student sid u db = (Inr res, db') \<longrightarrow>
            (\<exists>a'. find (\<lambda>r. a_student_id r = sid) (academic_details db') = Some a' \<and>
                  a_id a' = a_id a \<and> a_student_id a' = sid \<and>
                  varchar 200 (college_name data) = Some (college_name a') \<and>
                  varchar 100 (department data) = Some (department a') \<and>
                  (length (college_name data) \<le> 200 \<longrightarrow> college_name a' = college_name data) \<and>
                  (length (department data) \<le> 100 \<longrightarrow> department a' = department data) \<and>
                  graduation_year a' = graduation_year data \<and> cgpa a' = cgpa data \<and>
                  backlogs a' = backlogs data \<and>
                  academic_details db' =
                    map (\<lambda>r. if a_id r = a_id a then a' else r) (academic_details db))) \<and>
         (find (\<lambda>r. a_student_id r = sid) (academic_details db) = None \<longrightarrow>
            update_student sid u db = update_student sid (u\<lparr>su_academic_details := None\<rparr>) db \<and>
            academic_details (snd (update_student sid u db)) = academic_details db \<and>
            (su_name u = None \<and> su_email u = None \<and> su_phone u = None \<and> su_gender u = None \<longrightarrow>
               (\<exists>res. fst (update_student sid u db) = Inr res)))"
proof (intro conjI allI impI)
  fix a res db'
  assume first: "find (\<lambda>r. a_student_id r = sid) (academic_details db) = Some a"
    and run: "update_student sid u db = (Inr res, db')"
  from found run obtain s' where c: "commit_update sid u s db = Some (s', db')"
    by (auto simp: update_student_def split: option.splits)
  from commit_update_academic_present [OF c sub first] obtain a' where
    a': "set_academic data a = Some a'" and
    tbl: "academic_details db' = map (\<lambda>r. if a_id r = a_id a' then a' else r) (academic_details db)"
    by blast
  note fl = set_academic_fields [OF a']
  have owner: "a_student_id a = sid" using find_Some_key [OF first] by blast
  with fl have owner': "a_student_id a' = sid" by simp
  from fl have ida: "a_id a' = a_id a" by simp
  have tbl': "academic_details db' = map (\<lambda>r. if a_id r = a_id a then a' else r) (academic_details db)"
    using tbl ida by simp
  have fnd: "find (\<lambda>r. a_student_id r = sid) (academic_details db') = Some a'"
    unfolding tbl' by (rule find_replaced_first [OF first owner'])
  have c1: "length (college_name data) \<le> 200 \<longrightarrow> college_name a' = college_name data"
    using fl varchar_fits by blast
  have c2: "length (department data) \<le> 100 \<longrightarrow> department a' = department data"
    using fl varchar_fits by blast
  from fnd ida owner' fl c1 c2 tbl'
  show "\<exists>a'. find (\<lambda>r. a_student_id r = sid) (academic_details db') = Some a' \<and>
                  a_id a' = a_id a \<and> a_student_id a' = sid \<and>
                  varchar 200 (college_name data) = Some (college_name a') \<and>
                  varchar 100 (department data) = Some (department a') \<and>
                  (length (college_name data) \<le> 200 \<longrightarrow> college_name a' = college_name data) \<and>
                  (length (department data) \<le> 100 \<longrightarrow> department a' = department data) \<and>
                  graduation_year a' = graduation_year data \<and> cgpa a' = cgpa data \<and>
                  backlogs a' = backlogs data \<and>
                  academic_details db' =
                    map (\<lambda>r. if a_id r = a_id a then a' else r) (academic_details db)"
    by (intro exI [of _ a']) blast
next
  assume none: "find (\<lambda>r. a_student_id r = sid) (academic_details db) = None"
  show same: "update_student sid u db = update_student sid (u\<lparr>su_academic_details := None\<rparr>) db"
    using found by (simp add: update_student_def commit_update_no_academic_row [OF none, of u s])
  show "academic_details (snd (update_student sid u db)) = academic_details db"
  proof (cases "commit_update sid (u\<lparr>su_academic_details := None\<rparr>) s db")
    case None
    with found show ?thesis unfolding same by (simp add: update_student_def)
  next
    case (Some p)
    then obtain s' db' where c: "commit_update sid (u\<lparr>su_academic_details := None\<rparr>) s db = Some (s', db')"
      by (cases p) auto
    from commit_update_academic_absent [OF c] have "academic_details db' = academic_details db"
      by simp
    with found c show ?thesis unfolding same by (simp add: update_student_def)
  qed
next
  assume none: "find (\<lambda>r. a_student_id r = sid) (academic_details db) = None"
    and unset: "su_name u = None \<and> su_email u = None \<and> su_phone u = None \<and> su_gender u = None"
  then have "set_student u s = Some s" by (simp add: set_student_all_unset)
  with none sub have "commit_update sid u s db = Some (s, store_student s db)"
    by (simp add: commit_update_def)
  with found show "\<exists>res. fst (update_student sid u db) = Inr res"
    by (simp add: update_student_def)
qed

text \<open>On the seeded store for Rahul, and on the seeded store without his academic row.\<close>

theorem update_student_academic_details_witness:
  "find (\<lambda>r. s_id r = 1) (students seeded_db) = Some rahul_row \<and>
   su_academic_details (academic_only bits_pilani) = Some bits_pilani \<and>
   find (\<lambda>r. a_student_id r = 1) (academic_details seeded_db) = Some rahul_academic \<and>
   update_student 1 (academic_only bits_pilani) seeded_db =
     (Inr (populate (seeded_db\<lparr>academic_details := [rahul_bits, priya_academic]\<rparr>) rahul_row),
      seeded_db\<lparr>academic_details := [rahul_bits, priya_academic]\<rparr>) \<and>
   find (\<lambda>r. a_student_id r = 1)
     (academic_details (seeded_db\<lparr>academic_details := [rahul_bits, priya_academic]\<rparr>)) = Some rahul_bits \<and>
   find (\<lambda>r. a_student_id r = 1)
     (academic_details (seeded_db\<lparr>academic_details := [priya_academic]\<rparr>)) = None \<and>
   update_student 1 (academic_only bits_pilani) (seeded_db\<lparr>academic_details := [priya_academic]\<rparr>) =
     update_student 1 (academic_only bits_pilani\<lparr>su_academic_details := None\<rparr>)
       (seeded_db\<lparr>academic_details := [priya_academic]\<rparr>) \<and>
   update_student 1 (academic_only bits_pilani) (seeded_db\<lparr>academic_details := [priya_academic]\<rparr>) =
     (Inr (populate (seeded_db\<lparr>academic_details := [priya_academic]\<rparr>) rahul_row),
      seeded_db\<lparr>academic_details := [priya_academic]\<rparr>)"
proof -
  let ?u = "academic_only bits_pilani"
  let ?db0 = "seeded_db\<lparr>academic_details := [priya_academic]\<rparr>"
  have found: "find (\<lambda>r. s_id r = 1) (students seeded_db) = Some rahul_row"
    by (simp add: seed_defs)
  have found0: "find (\<lambda>r. s_id r = 1) (students ?db0) = Some rahul_row"
    by (simp add: seed_defs)
  have sub: "su_academic_details ?u = Some bits_pilani"
    by (simp add: academic_only_def)
  have first: "find (\<lambda>r. a_student_id r = 1) (academic_details seeded_db) = Some rahul_academic"
    by (simp add: seed_defs)
  have none: "find (\<lambda>r. a_student_id r = 1) (academic_details ?db0) = None"
    by (simp add: seed_defs)
  have after: "find (\<lambda>r. a_student_id r = 1)
       (academic_details (seeded_db\<lparr>academic_details := [rahul_bits, priya_academic]\<rparr>)) = Some rahul_bits"
    by (simp add: rahul_bits_def)
  from update_student_academic_details [OF found0 sub] none
  have same: "update_student 1 ?u ?db0 = update_student 1 (?u\<lparr>su_academic_details := None\<rparr>) ?db0"
    by blast
  from found sub first update_academic_seeded after none same update_academic_no_row
  show ?thesis by blast
qed

subsection \<open>Cascade on delete and the ownership invariant\<close>

lemma no_orphans_iff:
  "no_orphans db \<longleftrightarrow>
     (\<forall>a \<in> set (academic_details db). a_student_id a \<in> s_id ` set (students db)) \<and>
     (\<forall>d \<in> set (documents db). d_student_id d \<in> s_id ` set (students db))"
  by (simp add: no_orphans_def list_all_iff)

lemma insert_student_tables:
  assumes "insert_student n e p g now db = Some (row, db1)"
  shows "students db1 = students db @ [row] \<and> academic_details db1 = academic_details db \<and>
         documents db1 = documents db"
  using assms
  by (auto simp: insert_student_def bind_eq_Some_conv Let_def split: if_splits)

lemma insert_academic_details_tables:
  assumes "insert_academic_details sid ad db = Some (row, db1)"
  shows "students db1 = students db \<and> academic_details db1 = academic_details db @ [row] \<and>
         documents db1 = documents db \<and> a_student_id row = sid \<and>
         sid \<in> s_id ` set (students db)"
  using assms
  by (auto simp: insert_academic_details_def bind_eq_Some_conv Let_def split: if_splits)

lemma insert_document_tables:
  assumes "insert_document sid ty path now db = Some db1"
  shows "\<exists>row. students db1 = students db \<and> academic_details db1 = academic_details db \<and>
         documents db1 = documents db @ [row] \<and> d_student_id row = sid \<and>
         sid \<in> s_id ` set (students db)"
  using assms
  by (auto simp: insert_document_def bind_eq_Some_conv Let_def split: if_splits)

lemma no_orphans_insert_student:
  "insert_student n e p g now db = Some (row, db1) \<Longrightarrow> no_orphans db \<Longrightarrow> no_orphans db1"
  by (drule insert_student_tables) (auto simp: no_orphans_iff)

lemma no_orphans_insert_academic_details:
  "insert_academic_details sid ad db = Some (row, db1) \<Longrightarrow> no_orphans db \<Longrightarrow> no_orphans db1"
  by (drule insert_academic_details_tables) (auto simp: no_orphans_iff)

lemma no_orphans_insert_document:
  "insert_document sid ty path now db = Some db1 \<Longrightarrow> no_orphans db \<Longrightarrow> no_orphans db1"
  by (drule insert_document_tables) (auto simp: no_orphans_iff)

lemma no_orphans_create_student:
  "no_orphans db \<Longrightarrow> no_orphans (snd (create_student student now db))"
  by (auto simp: create_student_def split: option.splits
      dest: no_orphans_insert_student no_orphans_insert_academic_details)

lemma map_key_store_row:
  assumes "key s' = k"
  shows "map key (map (\<lambda>r. if key r = k then s' else r) xs) = map key xs"
  using assms by (induction xs) auto

lemma no_orphans_commit_update:
  assumes c: "commit_update sid u s db = Some (s', db')" and inv: "no_orphans db"
    and s: "s_id s = sid"
  shows "no_orphans db'"
proof -
  note st = commit_update_students [OF c]
  have sid': "s_id s' = s_id s"
    using st set_student_frame [of u s s'] by blast
  have "map s_id (students db') = map s_id (students db)"
    using st sid' map_key_store_row [of s_id s' "s_id s" "students db"] by simp
  then have "set (map s_id (students db')) = set (map s_id (students db))"
    by simp
  then have ids: "s_id ` set (students db') = s_id ` set (students db)"
    by simp
  have docs: "documents db' = documents db" using st by simp
  have acad: "\<forall>a \<in> set (academic_details db'). a_student_id a \<in> s_id ` set (students db)"
  proof (cases "su_academic_details u")
    case None
    then show ?thesis
      using commit_update_academic_absent [OF c] inv by (simp add: no_orphans_iff)
  next
    case (Some data)
    show ?thesis
    proof (cases "find (\<lambda>r. a_student_id r = sid) (academic_details db)")
      case None
      then have "commit_update sid (u\<lparr>su_academic_details := None\<rparr>) s db = Some (s', db')"
        using c commit_update_no_academic_row [of sid db u s] by simp
      from commit_update_academic_absent [OF this] inv show ?thesis
        by (simp add: no_orphans_iff)
    next
      case (Some a)
      from commit_update_academic_present [OF c \<open>su_academic_details u = Some data\<close> Some]
      obtain a' where a': "set_academic data a = Some a'" and
        tbl: "academic_details db' = map (\<lambda>r. if a_id r = a_id a' then a' else r) (academic_details db)"
        by blast
      have "a \<in> set (academic_details db)" using find_Some_key [OF Some] by blast
      then have "a_student_id a \<in> s_id ` set (students db)"
        using inv by (simp add: no_orphans_iff)
      then have "a_student_id a' \<in> s_id ` set (students db)"
        using set_academic_fields [OF a'] by simp
      then show ?thesis
        using inv unfolding tbl by (auto simp: no_orphans_iff)
    qed
  qed
  show ?thesis
    using acad inv unfolding no_orphans_iff ids docs by blast
qed

lemma no_orphans_update_student:
  assumes "no_orphans db"
  shows "no_orphans (snd (update_student sid u db))"
proof (cases "find (\<lambda>r. s_id r = sid) (students db)")
  case None
  with assms show ?thesis by (simp add: update_student_def)
next
  case (Some s)
  then have "s_id s = sid" using find_Some_key [OF Some] by blast
  with assms Some show ?thesis
    by (auto simp: update_student_def split: option.splits dest: no_orphans_commit_update)
qed

lemma delete_student_found:
  assumes "find (\<lambda>r. s_id r = sid) (students db) = Some s"
  shows "delete_student sid (db, files) =
     (Inr ''Student deleted successfully'',
      (db\<lparr>students := filter (\<lambda>s. s_id s \<noteq> sid) (students db),
          academic_details := filter (\<lambda>a. a_student_id a \<noteq> sid) (academic_details db),
          documents := filter (\<lambda>d. d_student_id d \<noteq> sid) (documents db)\<rparr>,
       fold (\<lambda>doc fs. if file_path doc \<in> fs then fs - {file_path doc} else fs)
         (documents_of db sid) files))"
  using assms by (simp add: delete_student_def)

lemma no_orphans_delete_student:
  assumes "no_orphans db"
  shows "no_orphans (fst (snd (delete_student sid (db, files))))"
proof (cases "find (\<lambda>r. s_id r = sid) (students db)")
  case None
  with assms show ?thesis by (simp add: delete_student_def)
next
  case (Some s)
  show ?thesis
    using assms unfolding delete_student_found [OF Some]
    by (auto simp: no_orphans_iff)
qed

lemma no_orphans_upload_documents:
  assumes "no_orphans db"
  shows "no_orphans (fst (snd (upload_documents can_open sid resume id_proof now (db, files))))"
  using assms
  by (auto simp: upload_documents_def Let_def bind_eq_Some_conv
      split: option.splits dest: no_orphans_insert_document)

lemma str_int_1: "str_int 1 = ''1''"
  by code_simp

lemma upload_seeded:
  "upload_documents (\<lambda>path. True) 1 ''cv.pdf'' None 0 (seeded_db, {}) =
     (Inr [(''resume'', ''cv.pdf'')], (uploaded_db, {file_path rahul_resume}))"
  by (simp add: upload_documents_def insert_document_def varchar_def integer_col_def
      UPLOAD_DIR_def str_int_1 uploaded_db_def rahul_resume_def seed_defs Let_def)

lemma get_student_deleted:
  "get_student sid (db\<lparr>students := filter (\<lambda>s. s_id s \<noteq> sid) (students db),
          academic_details := as, documents := ds\<rparr>) = Inl (HTTPException 404 ''Student not found'')"
proof -
  have "find (\<lambda>s. s_id s = sid) (filter (\<lambda>s. s_id s \<noteq> sid) (students db)) = None"
    by (simp add: find_None_iff)
  then show ?thesis by (simp add: get_student_def)
qed

text \<open>C6. \<^verbatim>\<open>delete_student\<close> on an existing id succeeds and leaves no academic row and
  no document row of that student; \<^verbatim>\<open>get_student\<close> on the id then answers 404; so does
  \<^verbatim>\<open>download_document\<close> for each former document of the student, under the student's
  id and, document ids being distinct, under any id. A store without orphaned children
  has none after the delete, and none after \<^verbatim>\<open>create_student\<close>, \<^verbatim>\<open>update_student\<close>,
  \<^verbatim>\<open>delete_student\<close> or \<^verbatim>\<open>upload_documents\<close> with any arguments.\<close>

theorem delete_student_cascades:
  assumes found: "find (\<lambda>r. s_id r = sid) (students db) = Some s"
  shows "\<exists>db' files'.
           delete_student sid (db, files) = (Inr ''Student deleted successfully'', (db', files')) \<and>
           academic_details_of db' sid = [] \<and> documents_of db' sid = [] \<and>
           get_student sid db' = Inl (HTTPException 404 ''Student not found'') \<and>
           (\<forall>d \<in> set (documents_of db sid).
              download_document sid (d_id d) (db', files') = Inl (HTTPException 404 ''Document not found'')) \<and>
           (distinct (map d_id (documents db)) \<longrightarrow>
              (\<forall>d \<in> set (documents_of db sid). \<forall>sid'.
                 download_document sid' (d_id d) (db', files') =
                   Inl (HTTPException 404 ''Document not found''))) \<and>
           (no_orphans db \<longrightarrow> no_orphans db') \<and>
           (no_orphans db \<longrightarrow>
              no_orphans (snd (create_student student now db)) \<and>
              no_orphans (snd (update_student sid2 u db)) \<and>
              no_orphans (fst (snd (delete_student sid2 (db, files)))) \<and>
              no_orphans (fst (snd (upload_documents can_open sid2 resume id_proof now (db, files)))))"
proof -
  let ?db' = "db\<lparr>students := filter (\<lambda>s. s_id s \<noteq> sid) (students db),
          academic_details := filter (\<lambda>a. a_student_id a \<noteq> sid) (academic_details db),
          documents := filter (\<lambda>d. d_student_id d \<noteq> sid) (documents db)\<rparr>"
  let ?files' = "fold (\<lambda>doc fs. if file_path doc \<in> fs then fs - {file_path doc} else fs)
         (documents_of db sid) files"
  note run = delete_student_found [OF found, of files]
  have a: "academic_details_of ?db' sid = []" "documents_of ?db' sid = []"
    by (simp_all add: academic_details_of_def documents_of_def)
  have g: "get_student sid ?db' = Inl (HTTPException 404 ''Student not found'')"
    by (rule get_student_deleted)
  have d1: "download_document sid i (?db', ?files') = Inl (HTTPException 404 ''Document not found'')" for i
  proof -
    have "find (\<lambda>d. d_id d = i \<and> d_student_id d = sid)
            (filter (\<lambda>d. d_student_id d \<noteq> sid) (documents db)) = None"
      by (simp add: find_None_iff)
    then show ?thesis by (simp add: download_document_def)
  qed
  have d2: "download_document sid' (d_id d) (?db', ?files') = Inl (HTTPException 404 ''Document not found'')"
    if dist: "distinct (map d_id (documents db))" and d: "d \<in> set (documents_of db sid)" for d sid'
  proof -
    from d have mem: "d \<in> set (documents db)" and own: "d_student_id d = sid"
      by (simp_all add: documents_of_def)
    have "r = d" if "r \<in> set (documents db)" "d_id r = d_id d" for r
      using dist mem that by (meson distinct_map inj_onD)
    then have "find (\<lambda>r. d_id r = d_id d \<and> d_student_id r = sid')
                 (filter (\<lambda>r. d_student_id r \<noteq> sid) (documents db)) = None"
      using own by (auto simp: find_None_iff)
    then show ?thesis by (simp add: download_document_def)
  qed
  have inv: "no_orphans db \<longrightarrow> no_orphans ?db'"
    using no_orphans_delete_student [of db sid files] unfolding run by simp
  have others: "no_orphans db \<longrightarrow>
              no_orphans (snd (create_student student now db)) \<and>
              no_orphans (snd (update_student sid2 u db)) \<and>
              no_orphans (fst (snd (delete_student sid2 (db, files)))) \<and>
              no_orphans (fst (snd (upload_documents can_open sid2 resume id_proof now (db, files))))"
    using no_orphans_create_student no_orphans_update_student no_orphans_delete_student
      no_orphans_upload_documents by blast
  from run a g d1 d2 inv others show ?thesis
    by (intro exI [of _ ?db'] exI [of _ ?files']) blast
qed

text \<open>Deleting Rahul from the store that holds his resume.\<close>

lemma delete_uploaded:
  "delete_student 1 (uploaded_db, {file_path rahul_resume}) =
     (Inr ''Student deleted successfully'',
      (uploaded_db\<lparr>students := [priya_row], academic_details := [priya_academic], documents := []\<rparr>, {}))"
  by (simp add: delete_student_def documents_of_def uploaded_db_def rahul_resume_def seed_defs)

theorem delete_student_cascades_witness:
  "find (\<lambda>r. s_id r = 1) (students uploaded_db) = Some rahul_row \<and>
   rahul_resume \<in> set (documents_of uploaded_db 1) \<and>
   distinct (map d_id (documents uploaded_db)) \<and> no_orphans uploaded_db \<and>
   delete_student 1 (uploaded_db, {file_path rahul_resume}) =
     (Inr ''Student deleted successfully'',
      (uploaded_db\<lparr>students := [priya_row], academic_details := [priya_academic], documents := []\<rparr>, {})) \<and>
   get_student 1 (uploaded_db\<lparr>students := [priya_row], academic_details := [priya_academic], documents := []\<rparr>) =
     Inl (HTTPException 404 ''Student not found'') \<and>
   download_document 1 (d_id rahul_resume)
     (uploaded_db\<lparr>students := [priya_row], academic_details := [priya_academic], documents := []\<rparr>, {}) =
     Inl (HTTPException 404 ''Document not found'') \<and>
   no_orphans (uploaded_db\<lparr>students := [priya_row], academic_details := [priya_academic], documents := []\<rparr>)"
proof -
  let ?db' = "uploaded_db\<lparr>students := [priya_row], academic_details := [priya_academic], documents := []\<rparr>"
  have found: "find (\<lambda>r. s_id r = 1) (students uploaded_db) = Some rahul_row"
    by (simp add: uploaded_db_def seed_defs)
  have doc: "rahul_resume \<in> set (documents_of uploaded_db 1)"
    by (simp add: documents_of_def uploaded_db_def rahul_resume_def)
  have dist: "distinct (map d_id (documents uploaded_db))"
    by (simp add: uploaded_db_def)
  have inv: "no_orphans uploaded_db"
    by (simp add: no_orphans_def uploaded_db_def rahul_resume_def seed_defs)
  from delete_student_cascades [OF found, of "{file_path rahul_resume}"]
  have "get_student 1 ?db' = Inl (HTTPException 404 ''Student not found'') \<and>
        (\<forall>d \<in> set (documents_of uploaded_db 1).
           download_document 1 (d_id d) (?db', {}) = Inl (HTTPException 404 ''Document not found'')) \<and>
        (no_orphans uploaded_db \<longrightarrow> no_orphans ?db')"
    unfolding delete_uploaded by blast
  with found doc dist inv delete_uploaded show ?thesis by blast
qed

subsection \<open>The two commits of \<^verbatim>\<open>create_student\<close>\<close>



lemma insert_rahul:
  "insert_student ''Rahul Sharma'' ''rahul.sharma@email.com'' ''+91-9876543210'' ''Male'' 0 empty_db =
     Some (rahul_row, empty_db\<lparr>students := [rahul_row], students_id_seq := 2\<rparr>)"
  by (simp add: insert_student_def varchar_def integer_col_def empty_db_def rahul_row_def Let_def)





subsection \<open>Search against the worded search\<close>

lemma like_match_percent_iff:
  "like_match (CHR ''%'' # ps) t \<longleftrightarrow> (\<exists>xs ys. t = xs @ ys \<and> like_match ps ys)"
proof (induction t)
  case Nil
  then show ?case by simp
next
  case (Cons c cs)
  have "like_match (CHR ''%'' # ps) (c # cs) \<longleftrightarrow>
          like_match ps (c # cs) \<or> like_match (CHR ''%'' # ps) cs"
    by simp
  also have "\<dots> \<longleftrightarrow> like_match ps (c # cs) \<or> (\<exists>xs ys. cs = xs @ ys \<and> like_match ps ys)"
    using Cons.IH by simp
  also have "\<dots> \<longleftrightarrow> (\<exists>xs ys. c # cs = xs @ ys \<and> like_match ps ys)"
    by (auto simp: Cons_eq_append_conv)
  finally show ?case .
qed

lemma like_match_plain_char:
  "c \<noteq> CHR ''%'' \<Longrightarrow> c \<noteq> CHR ''_'' \<Longrightarrow> c \<noteq> CHR 0x5C \<Longrightarrow>
     like_match (c # ps) t \<longleftrightarrow> (\<exists>r. t = c # r \<and> like_match ps r)"
  by (cases t) auto

lemma like_match_plain:
  "plain v \<Longrightarrow> like_match (v @ ps) t \<longleftrightarrow> (\<exists>r. t = v @ r \<and> like_match ps r)"
proof (induction v arbitrary: t)
  case Nil
  then show ?case by simp
next
  case (Cons c v)
  from Cons.prems have c: "c \<noteq> CHR ''%''" "c \<noteq> CHR ''_''" "c \<noteq> CHR 0x5C" and v: "plain v"
    by (simp_all add: plain_def)
  have "like_match ((c # v) @ ps) t \<longleftrightarrow> (\<exists>r. t = c # r \<and> like_match (v @ ps) r)"
    using like_match_plain_char [OF c] by simp
  also have "\<dots> \<longleftrightarrow> (\<exists>r. t = c # r \<and> (\<exists>r'. r = v @ r' \<and> like_match ps r'))"
    using Cons.IH [OF v] by simp
  also have "\<dots> \<longleftrightarrow> (\<exists>r'. t = (c # v) @ r' \<and> like_match ps r')"
    by auto
  finally show ?case .
qed

lemma like_match_any: "like_match [CHR ''%''] t"
  by (simp add: like_match_percent_iff del: like_match.simps(2))

lemma like_match_contains:
  assumes "plain v"
  shows "like_match (CHR ''%'' # v @ [CHR ''%'']) t \<longleftrightarrow> sublist v t"
proof -
  have "like_match (CHR ''%'' # v @ [CHR ''%'']) t \<longleftrightarrow>
          (\<exists>xs ys. t = xs @ ys \<and> like_match (v @ [CHR ''%'']) ys)"
    by (rule like_match_percent_iff)
  also have "\<dots> \<longleftrightarrow> (\<exists>xs ys. t = xs @ ys \<and> (\<exists>r. ys = v @ r))"
    by (simp only: like_match_plain [OF assms] like_match_any simp_thms)
  also have "\<dots> \<longleftrightarrow> sublist v t"
    by (auto simp: sublist_def)
  finally show ?thesis .
qed

lemma ilike_contains:
  assumes "plain (fc c)" and "fc (''%'' @ c @ ''%'') = ''%'' @ fc c @ ''%''"
  shows "ilike fc x (''%'' @ c @ ''%'') \<longleftrightarrow> contains_ci fc c x"
proof -
  have "ilike fc x (''%'' @ c @ ''%'') \<longleftrightarrow> like_match (CHR ''%'' # fc c @ [CHR ''%'']) (fc x)"
    unfolding ilike_def assms(2) by simp
  also have "\<dots> \<longleftrightarrow> sublist (fc c) (fc x)"
    by (rule like_match_contains [OF assms(1)])
  finally show ?thesis by (simp add: contains_ci_def)
qed

lemma ascii_lower_cases:
  "ascii_lower c = c \<or>
   (97 \<le> (of_char (ascii_lower c) :: nat) \<and> (of_char (ascii_lower c) :: nat) \<le> 122)"
  by (auto simp: ascii_lower_def Let_def)

lemma ascii_lower_plain:
  assumes "c \<noteq> CHR ''%'' \<and> c \<noteq> CHR ''_'' \<and> c \<noteq> CHR 0x5C"
  shows "ascii_lower c \<noteq> CHR ''%'' \<and> ascii_lower c \<noteq> CHR ''_'' \<and> ascii_lower c \<noteq> CHR 0x5C"
proof (cases "ascii_lower c = c")
  case True
  with assms show ?thesis by simp
next
  case False
  with ascii_lower_cases [of c]
  have "97 \<le> (of_char (ascii_lower c) :: nat)" by blast
  then show ?thesis by auto
qed

lemma plain_ascii_lower: "plain v \<Longrightarrow> plain (map ascii_lower v)"
  by (induction v) (simp_all add: plain_def ascii_lower_plain)

lemma ascii_lower_percent [simp]: "ascii_lower CHR ''%'' = CHR ''%''"
  by (simp add: ascii_lower_def)

lemma plain_for_c_locale: "plain c \<Longrightarrow> plain_for (map ascii_lower) (Some c)"
  by (simp add: plain_for_def plain_ascii_lower)

lemma row_filter_spec:
  assumes e0: "fc [] = []" and pc: "plain_for fc college" and pd: "plain_for fc department'"
  shows "row_filter fc college year department' (s, a) \<longleftrightarrow>
         spec_matches fc college (applied_year year) department' a"
proof -
  have str: "(v = [] \<or> ilike fc x (''%'' @ v @ ''%'')) \<longleftrightarrow> contains_ci fc v x"
    if "plain_for fc (Some v)" for v x
  proof (cases "v = []")
    case True
    then show ?thesis by (simp add: contains_ci_def e0)
  next
    case False
    from that have "plain (fc v)" "fc (''%'' @ v @ ''%'') = ''%'' @ fc v @ ''%''"
      by (simp_all add: plain_for_def)
    from ilike_contains [OF this, of x] False show ?thesis by simp
  qed
  have col: "(case college of None \<Rightarrow> True
              | Some c \<Rightarrow> c = [] \<or> ilike fc (college_name a) (''%'' @ c @ ''%'')) \<longleftrightarrow>
             (case college of None \<Rightarrow> True | Some c \<Rightarrow> contains_ci fc c (college_name a))"
    using pc str by (cases college) simp_all
  have dep: "(case department' of None \<Rightarrow> True
              | Some d \<Rightarrow> d = [] \<or> ilike fc (department a) (''%'' @ d @ ''%'')) \<longleftrightarrow>
             (case department' of None \<Rightarrow> True | Some d \<Rightarrow> contains_ci fc d (department a))"
    using pd str by (cases department') simp_all
  have yr: "(case year of None \<Rightarrow> True | Some y \<Rightarrow> y = 0 \<or> graduation_year a = y) \<longleftrightarrow>
            (case applied_year year of None \<Rightarrow> True | Some y \<Rightarrow> graduation_year a = y)"
    by (cases year) (simp_all add: applied_year_def)
  show ?thesis
    unfolding row_filter_def spec_matches_def snd_conv col dep yr ..
qed

lemma unique_list_keys:
  "key ` set (unique_list key seen xs) = key ` set xs - set seen"
  by (induction xs arbitrary: seen) auto

lemma unique_list_inj:
  assumes "inj_on key (set xs)"
  shows "set (unique_list key [] xs) = set xs"
proof
  show "set (unique_list key [] xs) \<subseteq> set xs" by (rule set_unique_list)
  show "set xs \<subseteq> set (unique_list key [] xs)"
  proof
    fix x assume x: "x \<in> set xs"
    then have "key x \<in> key ` set (unique_list key [] xs)"
      by (simp add: unique_list_keys)
    then obtain y where y: "y \<in> set (unique_list key [] xs)" "key y = key x"
      by auto
    with set_unique_list [of key "[]" xs] have "y \<in> set xs" by blast
    with assms x y have "y = x" by (meson inj_onD)
    with y show "x \<in> set (unique_list key [] xs)" by simp
  qed
qed

lemma length_filter_sort_key: "length (filter P (sort_key f xs)) = length (filter P xs)"
proof -
  have "mset (filter P (sort_key f xs)) = mset (filter P xs)"
    by simp
  then show ?thesis by (rule mset_eq_length)
qed

lemma set_spec_search:
  "set (spec_search fc college year department' db) =
     fst ` set (filter (\<lambda>(s, a). spec_matches fc college year department' a) (join_academic_details db))"
proof (intro set_eqI iffI)
  fix s assume "s \<in> set (spec_search fc college year department' db)"
  then obtain a where "s \<in> set (students db)" "a \<in> set (academic_details db)"
    "a_student_id a = s_id s" "spec_matches fc college year department' a"
    by (auto simp: spec_search_def list_ex_iff)
  then have "(s, a) \<in> set (filter (\<lambda>(s, a). spec_matches fc college year department' a)
                 (join_academic_details db))"
    by (simp add: join_academic_details_iff)
  then show "s \<in> fst ` set (filter (\<lambda>(s, a). spec_matches fc college year department' a)
                 (join_academic_details db))"
    by force
next
  fix s assume "s \<in> fst ` set (filter (\<lambda>(s, a). spec_matches fc college year department' a)
                 (join_academic_details db))"
  then obtain a where "(s, a) \<in> set (join_academic_details db)"
    "spec_matches fc college year department' a"
    by auto
  then show "s \<in> set (spec_search fc college year department' db)"
    by (auto simp: spec_search_def list_ex_iff join_academic_details_iff)
qed

lemma ilike_seeded:
  "ilike (map ascii_lower) ''Indian Institute of Technology Delhi'' ''%_%''"
  "ilike (map ascii_lower) ''Delhi University'' ''%_%''"
  "ilike (map ascii_lower) ''Indian Institute of Technology Delhi'' ''%DELHI%''"
  "ilike (map ascii_lower) ''Delhi University'' ''%DELHI%''"
  by code_simp+

lemma contains_ci_seeded:
  "\<not> contains_ci (map ascii_lower) ''_'' ''Indian Institute of Technology Delhi''"
  "\<not> contains_ci (map ascii_lower) ''_'' ''Delhi University''"
  "contains_ci (map ascii_lower) ''DELHI'' ''Indian Institute of Technology Delhi''"
  "contains_ci (map ascii_lower) ''DELHI'' ''Delhi University''"
  by code_simp+

lemma search_year0_seeded:
  "search_students table_order None (Some 0) None 0 10 seeded_db =
     Inr [populate seeded_db rahul_row, populate seeded_db priya_row]"
  by (simp add: search_students_def join_academic_details_def table_order_def sort_key_const
      seed_defs)

lemma search_underscore_seeded:
  "search_students table_order (Some ''_'') None None 0 10 seeded_db =
     Inr [populate seeded_db rahul_row, populate seeded_db priya_row]"
  by (simp add: search_students_def join_academic_details_def table_order_def sort_key_const
      ilike_seeded seed_defs)

lemma search_limit1_seeded:
  "search_students table_order None None None 0 1 seeded_db = Inr [populate seeded_db rahul_row]"
  by (simp add: search_students_def join_academic_details_def table_order_def sort_key_const
      seed_defs)

text \<open>C4 fails as stated, on the seeded store with a database in the C locale that yields
  the rows as the tables list them. With \<open>year = 0\<close> the search returns both students
  though no graduation year is 0. With college \<^verbatim>\<open>_\<close> it returns both students though no
  college name contains an underscore: the value is put into the \<^verbatim>\<open>ILIKE\<close> pattern as it
  is. With \<open>limit = 1\<close> and no filter it returns one of the two students that match.\<close>

theorem search_students_not_exact:
  "search_students table_order None (Some 0) None 0 10 seeded_db =
     Inr [populate seeded_db rahul_row, populate seeded_db priya_row] \<and>
   spec_search (fold_case table_order) None (Some 0) None seeded_db = [] \<and>
   search_students table_order (Some ''_'') None None 0 10 seeded_db =
     Inr [populate seeded_db rahul_row, populate seeded_db priya_row] \<and>
   spec_search (fold_case table_order) (Some ''_'') None None seeded_db = [] \<and>
   search_students table_order None None None 0 1 seeded_db = Inr [populate seeded_db rahul_row] \<and>
   spec_search (fold_case table_order) None None None seeded_db = [rahul_row, priya_row]"
proof -
  have 1: "spec_search (fold_case table_order) None (Some 0) None seeded_db = []"
    by (simp add: spec_search_def spec_matches_def seed_defs)
  have 2: "spec_search (fold_case table_order) (Some ''_'') None None seeded_db = []"
    by (simp add: spec_search_def spec_matches_def table_order_def contains_ci_seeded seed_defs)
  have 3: "spec_search (fold_case table_order) None None None seeded_db = [rahul_row, priya_row]"
    by (simp add: spec_search_def spec_matches_def seed_defs)
  from 1 2 3 search_year0_seeded search_underscore_seeded search_limit1_seeded
  show ?thesis by (intro conjI)
qed

text \<open>C4, amended. Whatever orders the database uses and whatever its case folding is,
  as long as the folding takes the empty string to itself: for college and department
  values that have none of the pattern characters \<^verbatim>\<open>%\<close>, \<^verbatim>\<open>_\<close> and backslash (nor have
  one once folded), and with a year of 0 counted as no year filter, every student
  \<^verbatim>\<open>search_students\<close> returns has an academic row that satisfies all the filters given
  (college and department as substrings anywhere in the field, without case as the
  database folds it; the year exactly), is returned with its relationships loaded, and
  owns at least one academic row. When \<open>skip = 0\<close>, the student ids are distinct and the
  matching rows of the join are at most \<open>limit\<close>, the students returned are exactly
  those.\<close>

theorem search_students_matching:
  assumes run: "search_students e college year department' skip limit db = Inr rs"
    and e0: "fold_case e [] = []"
    and pc: "plain_for (fold_case e) college"
    and pd: "plain_for (fold_case e) department'"
  shows "set (map r_student rs)
           \<subseteq> set (spec_search (fold_case e) college (applied_year year) department' db) \<and>
         (\<forall>r \<in> set rs. r = populate db (r_student r) \<and> r_academic_details r \<noteq> []) \<and>
         (skip = 0 \<and> distinct (map s_id (students db)) \<and>
          length (filter (\<lambda>(s, a). spec_matches (fold_case e) college (applied_year year) department' a)
                    (join_academic_details db)) \<le> nat limit
          \<longrightarrow> set (map r_student rs) =
                set (spec_search (fold_case e) college (applied_year year) department' db))"
proof -
  let ?P = "\<lambda>(s, a). spec_matches (fold_case e) college (applied_year year) department' a"
  let ?M = "filter ?P (sort_key (join_order e) (join_academic_details db))"
  let ?rows = "take (nat limit) (drop (nat skip) ?M)"
  let ?out = "sort_key (result_order e) (map fst ?rows)"
  note ok = search_students_Inr [OF run]
  have rf: "filter (row_filter (fold_case e) college year department')
              (sort_key (join_order e) (join_academic_details db)) = ?M"
    by (rule filter_cong) (auto simp: row_filter_spec [OF e0 pc pd])
  from run ok have rs: "rs = map (populate db) (unique_list s_id [] ?out)"
    by (simp add: search_students_rows rf)
  then have st: "map r_student rs = unique_list s_id [] ?out"
    by (simp add: comp_def)
  have setM: "set ?M = set (filter ?P (join_academic_details db))"
    by simp
  have sub_rows: "set ?rows \<subseteq> set ?M"
    by (meson in_set_dropD in_set_takeD subsetI)
  have "set (unique_list s_id [] ?out) \<subseteq> set ?out"
    by (rule set_unique_list)
  also have "\<dots> = set (map fst ?rows)"
    by simp
  also have "\<dots> \<subseteq> fst ` set ?M"
    using sub_rows by auto
  finally have sub: "set (map r_student rs)
      \<subseteq> set (spec_search (fold_case e) college (applied_year year) department' db)"
    unfolding st set_spec_search setM .
  have pop: "\<forall>r \<in> set rs. r = populate db (r_student r) \<and> r_academic_details r \<noteq> []"
  proof
    fix r assume r: "r \<in> set rs"
    with rs obtain s where s: "r = populate db s" by auto
    from r have "r_student r \<in> set (map r_student rs)" by simp
    with sub have "r_student r
        \<in> set (spec_search (fold_case e) college (applied_year year) department' db)"
      by blast
    then obtain a where "a \<in> set (academic_details db)" "a_student_id a = s_id (r_student r)"
      by (auto simp: spec_search_def list_ex_iff)
    then have "academic_details_of db (s_id (r_student r)) \<noteq> []"
      by (auto simp: academic_details_of_def filter_empty_conv)
    with s show "r = populate db (r_student r) \<and> r_academic_details r \<noteq> []"
      by (simp add: populate_def)
  qed
  have full: "set (map r_student rs) =
                set (spec_search (fold_case e) college (applied_year year) department' db)"
    if "skip = 0" and pk: "distinct (map s_id (students db))"
      and len: "length (filter ?P (join_academic_details db)) \<le> nat limit"
  proof -
    from len have "length ?M \<le> nat limit"
      by (simp only: length_filter_sort_key)
    with that have rows: "?rows = ?M" by simp
    have "set ?out \<subseteq> set (students db)"
      unfolding rows by (auto simp: join_academic_details_iff)
    moreover from pk have "inj_on s_id (set (students db))"
      by (simp add: distinct_map)
    ultimately have "inj_on s_id (set ?out)"
      by (rule inj_on_subset [rotated])
    from unique_list_inj [OF this] have "set (unique_list s_id [] ?out) = set ?out" .
    also have "\<dots> = fst ` set ?M"
      unfolding rows by simp
    finally show ?thesis
      unfolding st set_spec_search setM .
  qed
  from sub pop full show ?thesis by blast
qed

text \<open>College \<^verbatim>\<open>DELHI\<close> and year 2025 on the seeded store: Priya.\<close>

lemma search_delhi_2025_seeded:
  "search_students table_order (Some ''DELHI'') (Some 2025) None 0 10 seeded_db =
     Inr [populate seeded_db priya_row]"
  by (simp add: search_students_def join_academic_details_def table_order_def sort_key_const
      ilike_seeded seed_defs)

theorem search_students_matching_witness:
  "search_students table_order (Some ''DELHI'') (Some 2025) None 0 10 seeded_db =
     Inr [populate seeded_db priya_row] \<and>
   fold_case table_order [] = [] \<and>
   plain_for (fold_case table_order) (Some ''DELHI'') \<and> plain_for (fold_case table_order) None \<and>
   distinct (map s_id (students seeded_db)) \<and>
   length (filter (\<lambda>(s, a). spec_matches (fold_case table_order) (Some ''DELHI'')
                               (applied_year (Some 2025)) None a)
             (join_academic_details seeded_db)) \<le> nat 10 \<and>
   set (map r_student [populate seeded_db priya_row]) =
     set (spec_search (fold_case table_order) (Some ''DELHI'') (applied_year (Some 2025)) None seeded_db) \<and>
   spec_search (fold_case table_order) (Some ''DELHI'') (applied_year (Some 2025)) None seeded_db =
     [priya_row]"
proof -
  have e0: "fold_case table_order [] = []"
    by (simp add: table_order_def)
  have pc: "plain_for (fold_case table_order) (Some ''DELHI'')"
    by (simp add: table_order_def plain_for_c_locale plain_def)
  have pd: "plain_for (fold_case table_order) None"
    by (simp add: plain_for_def)
  have pk: "distinct (map s_id (students seeded_db))"
    by (simp add: seed_defs)
  have len: "length (filter (\<lambda>(s, a). spec_matches (fold_case table_order) (Some ''DELHI'')
                               (applied_year (Some 2025)) None a)
             (join_academic_details seeded_db)) \<le> nat 10"
    by (rule order_trans [OF length_filter_le]) (simp add: join_academic_details_def seed_defs)
  have sp: "spec_search (fold_case table_order) (Some ''DELHI'') (applied_year (Some 2025)) None
              seeded_db = [priya_row]"
    by (simp add: spec_search_def spec_matches_def applied_year_def table_order_def
        contains_ci_seeded seed_defs)
  from search_students_matching [OF search_delhi_2025_seeded e0 pc pd] pk len
  have eq: "set (map r_student [populate seeded_db priya_row]) =
     set (spec_search (fold_case table_order) (Some ''DELHI'') (applied_year (Some 2025)) None seeded_db)"
    by blast
  from search_delhi_2025_seeded e0 pc pd pk len eq sp show ?thesis
    by (intro conjI)
qed

end
